theory Spec2Isabelle
  imports Main "HOL-Library.Char_ord" "HOL-Library.List_Lexorder"
begin

section \<open>GROMACS topology reader of forcebalance/gmxio.py\<close>

text \<open>
  The development embeds the module-level tables \<open>nftypes\<close>, \<open>pftypes\<close>, \<open>bftypes\<close>,
  \<open>aftypes\<close>, \<open>dftypes\<close>, \<open>fdict\<close>, \<open>pdict\<close>, the function \<open>parse_atomtype_line\<close> and
  the method \<open>ITP_Reader.feed\<close> of \<^verbatim>\<open>src/forcebalance/gmxio.py\<close>.  The source is
  Python 2: strings are byte strings (\<open>string\<close>), integers are unbounded (\<open>int\<close>),
  a raised exception is a value of \<open>error\<close>, and the attributes of the reader object
  together with the module-global dictionary \<open>pdict\<close> form the record \<open>reader\<close> that
  \<open>feed\<close> takes and returns.
\<close>

subsection \<open>Python values and exceptions\<close>

datatype error = IndexError | KeyError | ValueError | TypeError

text \<open>The values \<open>feed\<close> can return: \<open>None\<close>, a tuple, a list, a string.\<close>

datatype pyval = PNone | PStr string | PList "pyval list" | PTuple "pyval list"

text \<open>
  \<open>xs[i]\<close> on a Python list: an index from \<open>-len(xs)\<close> to \<open>len(xs) - 1\<close> is
  accepted, a negative one counting from the end; any other raises IndexError.
\<close>

definition py_index :: "'a list \<Rightarrow> int \<Rightarrow> error + 'a" where
  "py_index xs i =
     (if 0 \<le> i \<and> i < int (length xs) then Inr (xs ! nat i)
      else if - int (length xs) \<le> i \<and> i < 0 then Inr (xs ! nat (int (length xs) + i))
      else Inl IndexError)"

text \<open>
  The element that the Python index \<open>n\<close> selects in a list, a negative index counting
  from the end (for an index that \<open>py_index\<close> accepts).
\<close>

abbreviation at_index :: "'a list \<Rightarrow> int \<Rightarrow> 'a" where
  "at_index xs n \<equiv> xs ! nat (if n < 0 then n + int (length xs) else n)"

subsection \<open>String primitives\<close>

text \<open>The characters \<open>str.split()\<close> and \<open>str.strip()\<close> of Python 2 treat as whitespace.\<close>

definition is_space :: "char \<Rightarrow> bool" where
  "is_space c = (c \<in> set [CHR '' '', CHR 0x09, CHR 0x0A, CHR 0x0B, CHR 0x0C, CHR 0x0D])"

definition is_digit :: "char \<Rightarrow> bool" where
  "is_digit c = (c \<in> set ''0123456789'')"

text \<open>
  \<open>line.split()\<close>: the maximal runs of non-whitespace characters, in order.  The first
  argument of \<open>split_acc\<close> is the field being read.
\<close>

fun split_acc :: "string \<Rightarrow> string \<Rightarrow> string list" where
  "split_acc w [] = (if w = [] then [] else [w])"
| "split_acc w (c # cs) =
     (if is_space c then (if w = [] then split_acc [] cs else w # split_acc [] cs)
      else split_acc (w @ [c]) cs)"

definition split_ws :: "string \<Rightarrow> string list" where
  "split_ws line = split_acc [] line"

definition strip_ws :: "string \<Rightarrow> string" where
  "strip_ws w = rev (dropWhile is_space (rev (dropWhile is_space w)))"

definition drop_sign :: "string \<Rightarrow> string" where
  "drop_sign w = (case w of [] \<Rightarrow> [] | c # r \<Rightarrow> if c = CHR ''+'' \<or> c = CHR ''-'' then r else w)"

definition digit_val :: "char \<Rightarrow> int" where
  "digit_val c = int (of_char c) - 48"

text \<open>
  \<open>int(w)\<close> on a byte string, base 10: surrounding whitespace is dropped, then an
  optional sign and at least one decimal digit must make up the whole string; anything
  else raises ValueError (\<open>None\<close> here).
\<close>

definition py_int :: "string \<Rightarrow> int option" where
  "py_int w =
     (let t = strip_ws w; ds = drop_sign t in
      if ds \<noteq> [] \<and> list_all is_digit ds
      then Some ((if hd t = CHR ''-'' then - 1 else 1) * foldl (\<lambda>a c. 10 * a + digit_val c) 0 ds)
      else None)"

definition lower :: "char \<Rightarrow> char" where
  "lower c =
     (case map_of (zip ''ABCDEFGHIJKLMNOPQRSTUVWXYZ'' ''abcdefghijklmnopqrstuvwxyz'') c of
        None \<Rightarrow> c | Some d \<Rightarrow> d)"

definition exponent_ok :: "string \<Rightarrow> bool" where
  "exponent_ok r =
     (case r of [] \<Rightarrow> True
      | c # e \<Rightarrow> (c = CHR ''e'' \<or> c = CHR ''E'') \<and> drop_sign e \<noteq> [] \<and> list_all is_digit (drop_sign e))"

definition decimal_ok :: "string \<Rightarrow> bool" where
  "decimal_ok u =
     (let ip = takeWhile is_digit u; r1 = dropWhile is_digit u;
          fp = (case r1 of [] \<Rightarrow> [] | c # r \<Rightarrow> if c = CHR ''.'' then takeWhile is_digit r else []);
          r2 = (case r1 of [] \<Rightarrow> [] | c # r \<Rightarrow> if c = CHR ''.'' then dropWhile is_digit r else r1)
      in (ip \<noteq> [] \<or> fp \<noteq> []) \<and> exponent_ok r2)"

text \<open>
  Whether \<open>float(w)\<close> returns (Python 2.7): after surrounding whitespace and an optional
  sign, either \<open>inf\<close>, \<open>infinity\<close> or \<open>nan\<close> in any letter case, or a decimal literal
  with at least one mantissa digit and an optional exponent.  The floating-point value
  itself is not modelled: no branch of the reader depends on it.
\<close>

definition py_float_ok :: "string \<Rightarrow> bool" where
  "py_float_ok w =
     (let u = drop_sign (strip_ws w) in
      map lower u \<in> set [''inf'', ''infinity'', ''nan''] \<or> decimal_ok u)"

text \<open>\<open>match('[A-Za-z]', w)\<close>: the first character of \<open>w\<close> is an ASCII letter.\<close>

definition starts_alpha :: "string \<Rightarrow> bool" where
  "starts_alpha w =
     (case w of [] \<Rightarrow> False
      | c # _ \<Rightarrow> c \<in> set ''ABCDEFGHIJKLMNOPQRSTUVWXYZabcdefghijklmnopqrstuvwxyz'')"

text \<open>
  Modelled from the spec: \<open>isint\<close> of the module \<open>nifty\<close>, which is not among the
  sources.  The spec's atom-type rule reads: if the field ``parses as an integer, it is
  an atomic number''.
\<close>

definition isint :: "string \<Rightarrow> bool" where
  "isint w = (py_int w \<noteq> None)"

text \<open>\<open>match('^;', line)\<close>.\<close>

definition is_comment_line :: "string \<Rightarrow> bool" where
  "is_comment_line line = (case line of [] \<Rightarrow> False | c # _ \<Rightarrow> c = CHR '';'')"

text \<open>
  \<open>match('^\[.*\]', line)\<close>: the line starts with an opening bracket and a closing
  bracket follows before any newline (the dot of a regular expression matches every
  character but the newline).
\<close>

definition is_section_header :: "string \<Rightarrow> bool" where
  "is_section_header line =
     (case line of [] \<Rightarrow> False
      | c # r \<Rightarrow> c = CHR ''['' \<and> CHR '']'' \<in> set (takeWhile (\<lambda>d. d \<noteq> CHR 0x0A) r))"

text \<open>\<open>sub('[\[\] \n]', '', line)\<close>: brackets, blanks and newlines are deleted.\<close>

definition section_name :: "string \<Rightarrow> string" where
  "section_name line =
     filter (\<lambda>c. c \<notin> set [CHR ''['', CHR '']'', CHR '' '', CHR 0x0A]) line"

subsection \<open>The lookup tables\<close>

definition nftypes :: "string option list" where
  "nftypes = [None, Some ''VDW'', Some ''VDW_BHAM'']"

definition pftypes :: "string option list" where
  "pftypes = [None, Some ''VPAIR'', Some ''VPAIR_BHAM'']"

definition bftypes :: "string option list" where
  "bftypes = [None, Some ''BONDS'', Some ''G96BONDS'', Some ''MORSE'']"

definition aftypes :: "string option list" where
  "aftypes = [None, Some ''ANGLES'', Some ''G96ANGLES'', Some ''CROSS_BOND_BOND'',
              Some ''CROSS_BOND_ANGLE'', Some ''UREY_BRADLEY'', Some ''QANGLES'']"

definition dftypes :: "string option list" where
  "dftypes = [None, Some ''PDIHS'', Some ''IDIHS'', Some ''RBDIHS'']"

definition fdict :: "string \<rightharpoonup> string option list" where
  "fdict = map_of
     [(''atomtypes'', nftypes),
      (''nonbond_params'', pftypes),
      (''bonds'', bftypes),
      (''bondtypes'', bftypes),
      (''angles'', aftypes),
      (''angletypes'', aftypes),
      (''dihedrals'', dftypes),
      (''dihedraltypes'', dftypes),
      (''virtual_sites2'', [Some ''NONE'', Some ''VSITE2'']),
      (''virtual_sites3'', [Some ''NONE'', Some ''VSITE3'', Some ''VSITE3FD'', Some ''VSITE3FAD'',
                            Some ''VSITE3OUT'']),
      (''virtual_sites4'', [Some ''NONE'', Some ''VSITE4FD''])]"

type_synonym ptable = "string \<rightharpoonup> (int \<rightharpoonup> string)"

text \<open>The dictionary literal bound to the module global \<open>pdict\<close> when the module is loaded.\<close>

definition pdict_initial :: ptable where
  "pdict_initial = map_of
     [(''BONDS'', map_of [(3, ''B''), (4, ''K'')]),
      (''G96BONDS'', map_of []),
      (''MORSE'', map_of [(3, ''B''), (4, ''C''), (5, ''E'')]),
      (''ANGLES'', map_of [(4, ''B''), (5, ''K'')]),
      (''G96ANGLES'', map_of []),
      (''CROSS_BOND_BOND'', map_of [(4, ''1''), (5, ''2''), (6, ''K'')]),
      (''CROSS_BOND_ANGLE'', map_of [(4, ''1''), (5, ''2''), (6, ''3''), (7, ''K'')]),
      (''QANGLES'', map_of [(4, ''B''), (5, ''K0''), (6, ''K1''), (7, ''K2''), (8, ''K3''), (9, ''K4'')]),
      (''UREY_BRADLEY'', map_of [(4, ''T''), (5, ''K1''), (6, ''B''), (7, ''K2'')]),
      (''PDIHS1'', map_of [(5, ''B''), (6, ''K'')]),
      (''PDIHS2'', map_of [(5, ''B''), (6, ''K'')]),
      (''PDIHS3'', map_of [(5, ''B''), (6, ''K'')]),
      (''PDIHS4'', map_of [(5, ''B''), (6, ''K'')]),
      (''PDIHS5'', map_of [(5, ''B''), (6, ''K'')]),
      (''PDIHS6'', map_of [(5, ''B''), (6, ''K'')]),
      (''IDIHS'', map_of [(5, ''B''), (6, ''K'')]),
      (''VDW'', map_of [(4, ''S''), (5, ''T'')]),
      (''VPAIR'', map_of [(3, ''S''), (4, ''T'')]),
      (''COUL'', map_of [(6, '''')]),
      (''RBDIHS'', map_of [(6, ''K1''), (7, ''K2''), (8, ''K3''), (9, ''K4''), (10, ''K5'')]),
      (''VDW_BHAM'', map_of [(4, ''A''), (5, ''B''), (6, ''C'')]),
      (''VPAIR_BHAM'', map_of [(3, ''A''), (4, ''B''), (5, ''C'')]),
      (''QTPIE'', map_of [(1, ''C''), (2, ''H''), (3, ''A'')]),
      (''VSITE2'', map_of [(4, ''A'')]),
      (''VSITE3'', map_of [(5, ''A''), (6, ''B'')]),
      (''VSITE3FD'', map_of [(5, ''A''), (6, ''D'')]),
      (''VSITE3FAD'', map_of [(5, ''T''), (6, ''D'')]),
      (''VSITE3OUT'', map_of [(5, ''A''), (6, ''B''), (7, ''C'')]),
      (''VSITE4FD'', map_of [(6, ''A''), (7, ''B''), (8, ''D'')])]"

subsection \<open>The atom-type line\<close>

text \<open>
  The dictionary \<open>parse_atomtype_line\<close> returns.  The entries \<open>mass\<close>, \<open>chg\<close> and
  \<open>param\<close> hold the fields that the source converts with \<open>float\<close>.
\<close>

record atype =
  atomtype :: string
  batomtype :: string
  atomicnum :: int
  mass :: string
  chg :: string
  ptp :: string
  param :: "string list"
  bonus :: int

text \<open>
  \<open>parse_atomtype_line(line)\<close>.  \<open>Inr None\<close> is the bare \<open>return\<close> for a line of fewer than
  six fields.  \<open>wrd1\<close>, \<open>wrd2\<close> are the values of the counter \<open>wrd\<close> after the optional
  bonded type and the optional atomic number; with six fields or more every index read
  (at most \<open>wrd2 + 2 \<le> 4\<close>) is in range.
\<close>

definition parse_atomtype_line :: "string \<Rightarrow> error + atype option" where
  "parse_atomtype_line line =
     (let sline = split_ws (takeWhile (\<lambda>c. c \<noteq> CHR '';'') line) in
      if length sline < 6 then Inr None
      else
        let has_b = starts_alpha (sline ! 1);
            wrd1 = (if has_b then 2 else 1);
            has_n = isint (sline ! wrd1);
            wrd2 = (if has_n then wrd1 + 1 else wrd1)
        in if has_n \<and> py_int (sline ! wrd1) = None then Inl ValueError
           else if \<not> py_float_ok (sline ! wrd2) then Inl ValueError
           else if \<not> py_float_ok (sline ! (wrd2 + 1)) then Inl ValueError
           else if \<not> list_all py_float_ok (drop (wrd2 + 3) sline) then Inl ValueError
           else Inr (Some
             \<lparr>atomtype = sline ! 0,
              batomtype = (if has_b then sline ! 1 else sline ! 0),
              atomicnum = (case (if has_n then py_int (sline ! wrd1) else None) of
                             None \<Rightarrow> - 1 | Some n \<Rightarrow> n),
              mass = sline ! wrd2,
              chg = sline ! (wrd2 + 1),
              ptp = sline ! (wrd2 + 2),
              param = drop (wrd2 + 3) sline,
              bonus = (if has_b then 1 else 0) + (if has_n then 1 else 0)\<rparr>))"

subsection \<open>The reader\<close>

text \<open>
  The state \<open>feed\<close> reads and writes: the attributes \<open>ln\<close>, \<open>sec\<close>, \<open>nbtype\<close>, \<open>res\<close>,
  \<open>adict\<close>, \<open>itype\<close>, \<open>suffix\<close> of the reader, and \<open>pdict\<close>, the one dictionary object
  that both the module global \<open>pdict\<close> and the attribute \<open>self.pdict\<close> refer to.
  \<open>None\<close> is the Python \<open>None\<close>.
\<close>

record reader =
  ln :: int
  sec :: "string option"
  nbtype :: "int option"
  res :: "string option"
  adict :: "string \<rightharpoonup> string list"
  pdict :: ptable
  itype :: "string option"
  suffix :: "string option"

text \<open>
  How a branch of \<open>feed\<close> ends: by raising, by a \<open>return\<close> statement, or by falling
  through to the canonical ordering with the local variable \<open>atom\<close>.  A Python string
  bound to \<open>atom\<close> (the atom-type branch) is given as the list of its one-character
  strings, which is what \<open>len\<close>, indexing, \<open>[::-1]\<close> and \<open>''.join\<close> see of it.
\<close>

datatype flow = Raise error | Return pyval | Fall "string list"

text \<open>\<open>[s[k] for k in ks]\<close> written out as a list display \<open>[s[0], s[1], ...]\<close>.\<close>

fun fields :: "string list \<Rightarrow> int list \<Rightarrow> error + string list" where
  "fields s [] = Inr []"
| "fields s (k # ks) =
     (case py_index s k of Inl e \<Rightarrow> Inl e
      | Inr w \<Rightarrow> (case fields s ks of Inl e \<Rightarrow> Inl e | Inr ws \<Rightarrow> Inr (w # ws)))"

text \<open>
  \<open>self.adict[self.res]\<close>: the atom names registered under the current residue.  The
  keys of \<open>adict\<close> are strings, so the lookup fails while \<open>self.res\<close> is \<open>None\<close>.
\<close>

definition res_table :: "reader \<Rightarrow> string list option" where
  "res_table self = (case res self of None \<Rightarrow> None | Some r \<Rightarrow> adict self r)"

text \<open>
  \<open>[self.adict[self.res][int(i) - 1] for i in fs]\<close>: for each field in turn the
  dictionary lookup (KeyError), the conversion (ValueError) and the list index
  (IndexError).
\<close>

fun lookup_atoms :: "reader \<Rightarrow> string list \<Rightarrow> error + string list" where
  "lookup_atoms self [] = Inr []"
| "lookup_atoms self (i # fs) =
     (case res_table self of
        None \<Rightarrow> Inl KeyError
      | Some tbl \<Rightarrow>
          (case py_int i of None \<Rightarrow> Inl ValueError
           | Some n \<Rightarrow>
               (case py_index tbl (n - 1) of Inl e \<Rightarrow> Inl e
                | Inr a \<Rightarrow>
                    (case lookup_atoms self fs of Inl e \<Rightarrow> Inl e
                     | Inr as \<Rightarrow> Inr (a # as)))))"

text \<open>\<open>fdict[name][int(s[k])]\<close>.\<close>

definition code_itype :: "string \<Rightarrow> string list \<Rightarrow> int \<Rightarrow> error + string option" where
  "code_itype name s k =
     (case fdict name of None \<Rightarrow> Inl KeyError
      | Some tbl \<Rightarrow>
          (case py_index s k of Inl e \<Rightarrow> Inl e
           | Inr w \<Rightarrow> (case py_int w of None \<Rightarrow> Inl ValueError | Some n \<Rightarrow> py_index tbl n)))"

text \<open>\<open>tbl[self.nbtype]\<close>: indexing a list with \<open>None\<close> raises TypeError.\<close>

definition nb_itype :: "string option list \<Rightarrow> int option \<Rightarrow> error + string option" where
  "nb_itype tbl nb = (case nb of None \<Rightarrow> Inl TypeError | Some n \<Rightarrow> py_index tbl n)"

text \<open>
  The canonical ordering at the end of \<open>feed\<close>:
  \<open>if len(atom) > 1 and atom[0] > atom[-1]: atom = atom[::-1]\<close>.  Strings compare
  lexicographically by byte value.
\<close>

definition canonical :: "string list \<Rightarrow> string list" where
  "canonical atom = (if length atom > 1 \<and> hd atom > last atom then rev atom else atom)"

text \<open>
  The multiplicity of a proper dihedral:
  \<open>if self.itype == 'PDIHS' and len(s) >= 7: self.itype += s[7]\<close>.
\<close>

definition add_multiplicity :: "reader \<Rightarrow> string list \<Rightarrow> string list \<Rightarrow> flow \<times> reader" where
  "add_multiplicity self s atom =
     (if itype self = Some ''PDIHS'' \<and> length s \<ge> 7
      then (case py_index s 7 of
              Inl e \<Rightarrow> (Raise e, self)
            | Inr m \<Rightarrow> (Fall atom, self\<lparr>itype := Some (''PDIHS'' @ m)\<rparr>))
      else (Fall atom, self))"

text \<open>The branches of \<open>feed\<close>, one per section, in the order of the source.\<close>

definition feed_defaults :: "reader \<Rightarrow> string list \<Rightarrow> flow \<times> reader" where
  "feed_defaults self s =
     (case py_index s 0 of Inl e \<Rightarrow> (Raise e, self)
      | Inr w \<Rightarrow>
          (case py_int w of None \<Rightarrow> (Raise ValueError, self)
           | Some n \<Rightarrow> (Fall [], self\<lparr>nbtype := Some n\<rparr>)))"

definition feed_moleculetype :: "reader \<Rightarrow> string list \<Rightarrow> flow \<times> reader" where
  "feed_moleculetype self s =
     (case py_index s 0 of Inl e \<Rightarrow> (Raise e, self)
      | Inr w \<Rightarrow> (Fall [], self\<lparr>res := Some w\<rparr>))"

text \<open>
  Subscripting the \<open>None\<close> that \<open>parse_atomtype_line\<close> returns for a short line raises
  TypeError.  The two van-der-Waals entries of \<open>pdict\<close> are replaced before the
  interaction type is looked up.
\<close>

definition feed_atomtypes :: "reader \<Rightarrow> string \<Rightarrow> flow \<times> reader" where
  "feed_atomtypes self line =
     (case parse_atomtype_line line of
        Inl e \<Rightarrow> (Raise e, self)
      | Inr None \<Rightarrow> (Raise TypeError, self)
      | Inr (Some a) \<Rightarrow>
          (let self1 =
                 (if bonus a > 0
                  then self\<lparr>pdict := (pdict self)
                         (''VDW'' \<mapsto> map_of [(4 + bonus a, ''S''), (5 + bonus a, ''T'')],
                          ''VDW_BHAM'' \<mapsto> map_of [(4 + bonus a, ''A''), (5 + bonus a, ''B''),
                                                  (6 + bonus a, ''C'')])\<rparr>
                  else self)
           in (case fdict ''atomtypes'' of None \<Rightarrow> (Raise KeyError, self1)
               | Some tbl \<Rightarrow>
                   (case nb_itype tbl (nbtype self1) of Inl e \<Rightarrow> (Raise e, self1)
                    | Inr it \<Rightarrow> (Fall (map (\<lambda>c. [c]) (atomtype a)), self1\<lparr>itype := it\<rparr>)))))"

definition feed_nonbond_params :: "reader \<Rightarrow> string list \<Rightarrow> flow \<times> reader" where
  "feed_nonbond_params self s =
     (case fields s [0, 1] of Inl e \<Rightarrow> (Raise e, self)
      | Inr atom \<Rightarrow>
          (case nb_itype pftypes (nbtype self) of Inl e \<Rightarrow> (Raise e, self)
           | Inr it \<Rightarrow> (Fall atom, self\<lparr>itype := it\<rparr>)))"

text \<open>
  \<open>self.adict.setdefault(s[3], []).append(s[4])\<close>: the table is keyed by field 3 of
  the line.
\<close>

definition feed_atoms :: "reader \<Rightarrow> string list \<Rightarrow> flow \<times> reader" where
  "feed_atoms self s =
     (case fields s [4] of Inl e \<Rightarrow> (Raise e, self)
      | Inr atom \<Rightarrow>
          (let self1 = self\<lparr>itype := Some ''COUL''\<rparr> in
           (case py_index s 3 of Inl e \<Rightarrow> (Raise e, self1)
            | Inr r \<Rightarrow>
                (case py_index s 4 of Inl e \<Rightarrow> (Raise e, self1)
                 | Inr a \<Rightarrow>
                     (Fall atom,
                      self1\<lparr>adict := (adict self1)
                               (r \<mapsto> (case adict self1 r of None \<Rightarrow> [] | Some l \<Rightarrow> l) @ [a])\<rparr>)))))"

definition feed_qtpie :: "reader \<Rightarrow> string list \<Rightarrow> flow \<times> reader" where
  "feed_qtpie self s =
     (case fields s [0] of Inl e \<Rightarrow> (Raise e, self)
      | Inr atom \<Rightarrow> (Fall atom, self\<lparr>itype := Some ''QTPIE''\<rparr>))"

text \<open>
  \<open>bonds\<close>, \<open>angles\<close> and the first two statements of \<open>dihedrals\<close>: the atoms are looked
  up from the first \<open>n\<close> fields (the slice \<open>s[:n]\<close>), the function type is field \<open>n\<close>.
\<close>

definition feed_topol :: "string \<Rightarrow> nat \<Rightarrow> reader \<Rightarrow> string list \<Rightarrow> flow \<times> reader" where
  "feed_topol name n self s =
     (case lookup_atoms self (take n s) of Inl e \<Rightarrow> (Raise e, self)
      | Inr atom \<Rightarrow>
          (case code_itype name s (int n) of Inl e \<Rightarrow> (Raise e, self)
           | Inr it \<Rightarrow> (Fall atom, self\<lparr>itype := it\<rparr>)))"

text \<open>
  \<open>bondtypes\<close>, \<open>angletypes\<close>, the first two statements of \<open>dihedraltypes\<close>, and the
  virtual sites: the atoms are the fields at \<open>ks\<close>, the function type is field \<open>k\<close>.
\<close>

definition feed_types :: "string \<Rightarrow> int list \<Rightarrow> int \<Rightarrow> reader \<Rightarrow> string list \<Rightarrow> flow \<times> reader" where
  "feed_types name ks k self s =
     (case fields s ks of Inl e \<Rightarrow> (Raise e, self)
      | Inr atom \<Rightarrow>
          (case code_itype name s k of Inl e \<Rightarrow> (Raise e, self)
           | Inr it \<Rightarrow> (Fall atom, self\<lparr>itype := it\<rparr>)))"

definition feed_dihedrals :: "reader \<Rightarrow> string list \<Rightarrow> flow \<times> reader" where
  "feed_dihedrals self s =
     (case feed_topol ''dihedrals'' 4 self s of
        (Fall atom, self1) \<Rightarrow> add_multiplicity self1 s atom
      | r \<Rightarrow> r)"

definition feed_dihedraltypes :: "reader \<Rightarrow> string list \<Rightarrow> flow \<times> reader" where
  "feed_dihedraltypes self s =
     (case feed_types ''dihedraltypes'' [0, 1, 2, 3] 4 self s of
        (Fall atom, self1) \<Rightarrow> add_multiplicity self1 s atom
      | r \<Rightarrow> r)"

text \<open>The chain of \<open>if\<close>/\<open>elif\<close> on the line and the current section.\<close>

definition feed_section :: "reader \<Rightarrow> string list \<Rightarrow> string \<Rightarrow> flow \<times> reader" where
  "feed_section self s line =
     (if is_section_header line then (Fall [], self\<lparr>sec := Some (section_name line)\<rparr>)
      else if sec self = Some ''defaults'' then feed_defaults self s
      else if sec self = Some ''moleculetype'' then feed_moleculetype self s
      else if sec self = Some ''atomtypes'' then feed_atomtypes self line
      else if sec self = Some ''nonbond_params'' then feed_nonbond_params self s
      else if sec self = Some ''atoms'' then feed_atoms self s
      else if sec self = Some ''qtpie'' then feed_qtpie self s
      else if sec self = Some ''bonds'' then feed_topol ''bonds'' 2 self s
      else if sec self = Some ''bondtypes'' then feed_types ''bondtypes'' [0, 1] 2 self s
      else if sec self = Some ''angles'' then feed_topol ''angles'' 3 self s
      else if sec self = Some ''angletypes'' then feed_types ''angletypes'' [0, 1, 2] 3 self s
      else if sec self = Some ''dihedrals'' then feed_dihedrals self s
      else if sec self = Some ''dihedraltypes'' then feed_dihedraltypes self s
      else if sec self = Some ''virtual_sites2'' then feed_types ''virtual_sites2'' [0] 3 self s
      else if sec self = Some ''virtual_sites3'' then feed_types ''virtual_sites3'' [0] 4 self s
      else if sec self = Some ''virtual_sites4'' then feed_types ''virtual_sites4'' [0] 5 self s
      else (Return (PTuple [PList [], PStr ''Confused'']), self))"

text \<open>
  \<open>ITP_Reader.feed(self, line)\<close>.  The result is what the call does (the exception
  raised or the value returned) and the reader afterwards: an exception leaves the
  assignments made before it in place.  A branch that falls through stores the suffix
  and ends the method without a \<open>return\<close> statement, so the call returns \<open>None\<close>.
\<close>

definition feed :: "reader \<Rightarrow> string \<Rightarrow> (error + pyval) \<times> reader" where
  "feed self0 line =
     (let s = split_ws line;
          self = self0\<lparr>itype := None, ln := ln self0 + 1\<rparr>
      in if length s = 0 \<or> is_comment_line line then (Inr (PTuple [PNone, PNone]), self)
         else (case feed_section self s line of
                 (Raise e, self1) \<Rightarrow> (Inl e, self1)
               | (Return v, self1) \<Rightarrow> (Inr v, self1)
               | (Fall atom, self1) \<Rightarrow>
                   (Inr PNone, self1\<lparr>suffix := Some (concat (canonical atom))\<rparr>)))"

text \<open>
  The lines that reach the dispatch on the section: not blank, not a comment line, not
  a section header.
\<close>

definition data_line :: "string \<Rightarrow> bool" where
  "data_line line =
     (split_ws line \<noteq> [] \<and> \<not> is_comment_line line \<and> \<not> is_section_header line)"

text \<open>
  \<open>p[t][k]\<close>, the parameter name of field \<open>k\<close> for the interaction type \<open>t\<close>; \<open>None\<close>
  when either key is absent.
\<close>

definition pdict_lookup :: "ptable \<Rightarrow> string \<Rightarrow> int \<Rightarrow> string option" where
  "pdict_lookup p t k = (case p t of None \<Rightarrow> None | Some m \<Rightarrow> m k)"

text \<open>The sections that \<open>feed\<close> has a branch for.\<close>

definition data_sections :: "string list" where
  "data_sections =
     [''defaults'', ''moleculetype'', ''atomtypes'', ''nonbond_params'', ''atoms'', ''qtpie'',
      ''bonds'', ''bondtypes'', ''angles'', ''angletypes'', ''dihedrals'', ''dihedraltypes'',
      ''virtual_sites2'', ''virtual_sites3'', ''virtual_sites4'']"

text \<open>Feeding the lines of a file in order, stopping at the first exception.\<close>

fun feed_all :: "reader \<Rightarrow> string list \<Rightarrow> (error + pyval list) \<times> reader" where
  "feed_all self [] = (Inr [], self)"
| "feed_all self (l # ls) =
     (case feed self l of
        (Inl e, self1) \<Rightarrow> (Inl e, self1)
      | (Inr v, self1) \<Rightarrow>
          (case feed_all self1 ls of
             (Inl e, self2) \<Rightarrow> (Inl e, self2)
           | (Inr vs, self2) \<Rightarrow> (Inr (v # vs), self2)))"

text \<open>
  A reader as \<open>__init__\<close> leaves it, with the dictionary \<open>pdict\<close> as the module defines
  it.  The line counter and the attributes \<open>itype\<close> and \<open>suffix\<close> belong to the base
  class, which \<open>feed\<close> only writes.
\<close>

definition init_reader :: reader where
  "init_reader =
     \<lparr>ln = 0, sec = None, nbtype = None, res = None, adict = Map.empty,
      pdict = pdict_initial, itype = None, suffix = None\<rparr>"

subsection \<open>Readers used in the examples\<close>

text \<open>A fresh reader inside the \<open>atomtypes\<close> section, after a \<open>defaults\<close> line of code 1.\<close>

definition r_atomtypes :: reader where
  "r_atomtypes = init_reader\<lparr>sec := Some ''atomtypes'', nbtype := Some 1\<rparr>"

text \<open>A fresh reader inside the \<open>dihedraltypes\<close> section.\<close>

definition r_dihedraltypes :: reader where
  "r_dihedraltypes = init_reader\<lparr>sec := Some ''dihedraltypes''\<rparr>"

text \<open>
  A reader inside the \<open>bonds\<close> section of the molecule \<open>WAT\<close>, whose four atoms are
  registered.
\<close>

definition r_water_bonds :: reader where
  "r_water_bonds =
     init_reader\<lparr>sec := Some ''bonds'', res := Some ''WAT'',
                 adict := [''WAT'' \<mapsto> [''OW'', ''HW1'', ''HW2'', ''MW'']]\<rparr>"

text \<open>A reader inside the \<open>atoms\<close> section of a molecule type named \<open>SOL\<close>.\<close>

definition r_sol_atoms :: reader where
  "r_sol_atoms = init_reader\<lparr>sec := Some ''atoms'', res := Some ''SOL''\<rparr>"

text \<open>A fresh reader inside the \<open>bondtypes\<close> section.\<close>

definition r_bondtypes :: reader where
  "r_bondtypes = init_reader\<lparr>sec := Some ''bondtypes''\<rparr>"

text \<open>A reader inside the \<open>atoms\<close> section of a molecule type named \<open>WAT\<close>.\<close>

definition r_wat_atoms :: reader where
  "r_wat_atoms = init_reader\<lparr>sec := Some ''atoms'', res := Some ''WAT''\<rparr>"

section \<open>Properties\<close>

subsection \<open>How a call of \<open>feed\<close> unfolds\<close>

lemma feed_on_data_line:
  "data_line line \<Longrightarrow>
   feed self line =
     (case feed_section (self\<lparr>itype := None, ln := ln self + 1\<rparr>) (split_ws line) line of
        (Raise e, self1) \<Rightarrow> (Inl e, self1)
      | (Return v, self1) \<Rightarrow> (Inr v, self1)
      | (Fall atom, self1) \<Rightarrow> (Inr PNone, self1\<lparr>suffix := Some (concat (canonical atom))\<rparr>))"
  by (simp add: feed_def data_line_def Let_def)

lemma feed_off_data_line:
  "split_ws line = [] \<or> is_comment_line line \<Longrightarrow>
   feed self line = (Inr (PTuple [PNone, PNone]), self\<lparr>itype := None, ln := ln self + 1\<rparr>)"
  by (auto simp: feed_def Let_def)

lemma res_table_entered [simp]:
  "res_table (self\<lparr>itype := x, ln := y\<rparr>) = res_table self"
  by (simp add: res_table_def split: option.splits)

lemma lookup_atoms_cong:
  "res_table self' = res_table self \<Longrightarrow> lookup_atoms self' fs = lookup_atoms self fs"
  by (induction fs) (simp_all split: option.splits sum.splits)

lemma lookup_atoms_entered [simp]:
  "lookup_atoms (self\<lparr>itype := x, ln := y\<rparr>) fs = lookup_atoms self fs"
  by (rule lookup_atoms_cong) simp

lemma add_multiplicity_pdict: "pdict (snd (add_multiplicity self s atom)) = pdict self"
  by (simp add: add_multiplicity_def split: sum.splits)

lemma feed_topol_pdict: "pdict (snd (feed_topol name n self s)) = pdict self"
  by (simp add: feed_topol_def split: sum.splits)

lemma feed_types_pdict: "pdict (snd (feed_types name ks k self s)) = pdict self"
  by (simp add: feed_types_def split: sum.splits)

lemma feed_dihedrals_pdict: "pdict (snd (feed_dihedrals self s)) = pdict self"
  using feed_topol_pdict [of "''dihedrals''" 4 self s] add_multiplicity_pdict
  by (auto simp: feed_dihedrals_def split: prod.splits flow.splits)

lemma feed_dihedraltypes_pdict: "pdict (snd (feed_dihedraltypes self s)) = pdict self"
  using feed_types_pdict [of "''dihedraltypes''" "[0,1,2,3]" 4 self s] add_multiplicity_pdict
  by (auto simp: feed_dihedraltypes_def split: prod.splits flow.splits)

lemma feed_defaults_pdict: "pdict (snd (feed_defaults self s)) = pdict self"
  by (simp add: feed_defaults_def split: sum.splits option.splits)

lemma feed_moleculetype_pdict: "pdict (snd (feed_moleculetype self s)) = pdict self"
  by (simp add: feed_moleculetype_def split: sum.splits)

lemma feed_nonbond_params_pdict: "pdict (snd (feed_nonbond_params self s)) = pdict self"
  by (simp add: feed_nonbond_params_def split: sum.splits)

lemma feed_atoms_pdict: "pdict (snd (feed_atoms self s)) = pdict self"
  by (simp add: feed_atoms_def Let_def split: sum.splits)

lemma feed_qtpie_pdict: "pdict (snd (feed_qtpie self s)) = pdict self"
  by (simp add: feed_qtpie_def split: sum.splits)

lemma feed_atomtypes_pdict:
  "pdict (snd (feed_atomtypes self line)) =
     (case parse_atomtype_line line of
        Inr (Some a) \<Rightarrow>
          (if bonus a > 0
           then (pdict self)
                  (''VDW'' \<mapsto> map_of [(4 + bonus a, ''S''), (5 + bonus a, ''T'')],
                   ''VDW_BHAM'' \<mapsto> map_of [(4 + bonus a, ''A''), (5 + bonus a, ''B''),
                                           (6 + bonus a, ''C'')])
           else pdict self)
      | _ \<Rightarrow> pdict self)"
  by (simp add: feed_atomtypes_def Let_def split: sum.splits option.splits)

lemmas branch_pdict = feed_topol_pdict feed_types_pdict feed_dihedrals_pdict
  feed_dihedraltypes_pdict feed_defaults_pdict feed_moleculetype_pdict
  feed_nonbond_params_pdict feed_atoms_pdict feed_qtpie_pdict

lemma feed_section_pdict:
  "pdict (snd (feed_section self s line)) =
     (if \<not> is_section_header line \<and> sec self = Some ''atomtypes''
      then pdict (snd (feed_atomtypes self line)) else pdict self)"
  by (simp add: feed_section_def branch_pdict)

lemma feed_pdict:
  "pdict (snd (feed self line)) =
     (if data_line line \<and> sec self = Some ''atomtypes''
      then pdict (snd (feed_atomtypes (self\<lparr>itype := None, ln := ln self + 1\<rparr>) line))
      else pdict self)"
proof (cases "data_line line")
  case True
  obtain f r where fr:
    "feed_section (self\<lparr>itype := None, ln := ln self + 1\<rparr>) (split_ws line) line = (f, r)"
    by (cases "feed_section (self\<lparr>itype := None, ln := ln self + 1\<rparr>) (split_ws line) line")
  have "pdict (snd (feed self line)) = pdict r"
    using True fr by (simp add: feed_on_data_line split: flow.splits)
  also have "pdict r =
      pdict (snd (feed_section (self\<lparr>itype := None, ln := ln self + 1\<rparr>) (split_ws line) line))"
    using fr by simp
  finally show ?thesis using True
    by (simp add: feed_section_pdict data_line_def)
next
  case False
  show ?thesis
  proof (cases "split_ws line = [] \<or> is_comment_line line")
    case True
    then show ?thesis using False by (simp add: feed_off_data_line)
  next
    case nb: False
    then have h: "is_section_header line" using False by (simp add: data_line_def)
    from nb h show ?thesis using False
      by (simp add: feed_def Let_def feed_section_def)
  qed
qed

subsection \<open>The multiplicity of a proper dihedral (C2)\<close>

text \<open>
  C2.  A \<open>dihedrals\<close> or \<open>dihedraltypes\<close> line that resolves to the proper-dihedral type
  is said to get the multiplicity of field 7 appended when it has at least 8 fields and to
  keep the bare name, without error, when it has fewer.  The guard of the source is
  \<open>len(s) >= 7\<close> while the field read is \<open>s[7]\<close>: a line of exactly seven fields passes
  the guard and the read raises IndexError, after \<open>itype\<close> was set to the bare name.
\<close>

theorem feed_dihedraltypes_seven_fields:
  "fst (feed (init_reader\<lparr>sec := Some ''dihedraltypes''\<rparr>) ''A B C D 1 180.0 5.0'') = Inl IndexError
   \<and> itype (snd (feed (init_reader\<lparr>sec := Some ''dihedraltypes''\<rparr>) ''A B C D 1 180.0 5.0''))
       = Some ''PDIHS''"
  by code_simp

subsection \<open>What \<open>feed\<close> may change in the parameter table (C8)\<close>

lemma parse_zero_bonus:
  "parse_atomtype_line ''C 12.0107 0.0000 A 3.7500e-01 4.3932e-01'' =
     Inr (Some \<lparr>atomtype = ''C'', batomtype = ''C'', atomicnum = - 1, mass = ''12.0107'',
                chg = ''0.0000'', ptp = ''A'', param = [''3.7500e-01'', ''4.3932e-01''],
                bonus = 0\<rparr>)"
  by code_simp

text \<open>
  C8.  No call of \<open>feed\<close> replaces an entry of the parameter table other than the two
  van-der-Waals entries \<open>VDW\<close> and \<open>VDW_BHAM\<close>, whatever the line and the state and
  whether or not the call raises; and a line that parses as an atom-type line with zero
  bonus fields leaves the whole table, the van-der-Waals entries included, as it was.
\<close>

theorem pdict_frame:
  "(t \<noteq> ''VDW'' \<and> t \<noteq> ''VDW_BHAM'' \<longrightarrow> pdict (snd (feed self line)) t = pdict self t)
   \<and> (parse_atomtype_line line = Inr (Some a) \<and> bonus a = 0 \<longrightarrow>
        pdict (snd (feed self line)) = pdict self)"
  by (simp add: feed_pdict feed_atomtypes_pdict split: sum.splits option.splits)

theorem pdict_frame_witness:
  "pdict (snd (feed r_atomtypes ''C 12.0107 0.0000 A 3.7500e-01 4.3932e-01'')) ''BONDS''
     = pdict r_atomtypes ''BONDS''
   \<and> pdict (snd (feed r_atomtypes ''C 12.0107 0.0000 A 3.7500e-01 4.3932e-01''))
     = pdict r_atomtypes"
  using pdict_frame [of "''BONDS''" r_atomtypes "''C 12.0107 0.0000 A 3.7500e-01 4.3932e-01''"
      "\<lparr>atomtype = ''C'', batomtype = ''C'', atomicnum = - 1, mass = ''12.0107'',
        chg = ''0.0000'', ptp = ''A'', param = [''3.7500e-01'', ''4.3932e-01''], bonus = 0\<rparr>"]
    parse_zero_bonus
  by simp

subsection \<open>The shift of the van-der-Waals entries (C7)\<close>

lemma parse_one_bonus:
  "parse_atomtype_line ''Na 11 22.9897 0.0000 A 6.068e+03 2.662e+01'' =
     Inr (Some \<lparr>atomtype = ''Na'', batomtype = ''Na'', atomicnum = 11, mass = ''22.9897'',
                chg = ''0.0000'', ptp = ''A'', param = [''6.068e+03'', ''2.662e+01''],
                bonus = 1\<rparr>)"
  by code_simp

lemma data_line_na: "data_line ''Na 11 22.9897 0.0000 A 6.068e+03 2.662e+01''"
  by code_simp

text \<open>
  C7 as stated fails.  After an atom-type line with one bonus field, a \<open>nonbond_params\<close>
  line resolves to \<open>VPAIR\<close> (the pairwise table \<open>pftypes\<close>), and the parameter names of
  \<open>VPAIR\<close> are at fields 3 and 4, exactly as after an atom-type line with no bonus
  field: nothing is shifted for the lines of \<open>nonbond_params\<close>.
\<close>

theorem nonbond_params_not_shifted:
  "itype (snd (feed_all r_atomtypes
      [''Na 11 22.9897 0.0000 A 6.068e+03 2.662e+01'', ''[ nonbond_params ]'', ''Na Cl 1 0.3 0.4'']))
     = Some ''VPAIR''
   \<and> pdict_lookup (pdict (snd (feed_all r_atomtypes
      [''Na 11 22.9897 0.0000 A 6.068e+03 2.662e+01'', ''[ nonbond_params ]'', ''Na Cl 1 0.3 0.4''])))
        ''VPAIR'' 3 = Some ''S''
   \<and> pdict_lookup (pdict (snd (feed_all r_atomtypes
      [''Na 11 22.9897 0.0000 A 6.068e+03 2.662e+01'', ''[ nonbond_params ]'', ''Na Cl 1 0.3 0.4''])))
        ''VPAIR'' 4 = Some ''T''
   \<and> pdict_lookup (pdict (snd (feed_all r_atomtypes
      [''Na 22.9897 0.0000 A 6.068e+03 2.662e+01'', ''[ nonbond_params ]'', ''Na Cl 1 0.3 0.4''])))
        ''VPAIR'' 3 = Some ''S''
   \<and> pdict_lookup (pdict (snd (feed_all r_atomtypes
      [''Na 22.9897 0.0000 A 6.068e+03 2.662e+01'', ''[ nonbond_params ]'', ''Na Cl 1 0.3 0.4''])))
        ''VPAIR'' 4 = Some ''T''"
  by code_simp

text \<open>
  C7, amended.  Feeding an \<open>atomtypes\<close> line with exactly one bonus field makes the
  entries \<open>VDW\<close> and \<open>VDW_BHAM\<close> (the types of \<open>atomtypes\<close> lines) map field \<open>k + 1\<close> to
  what the table of the module maps field \<open>k\<close> to; the entries \<open>VPAIR\<close> and \<open>VPAIR_BHAM\<close>,
  by which \<open>nonbond_params\<close> lines are resolved, stay as they were; and the replacement is
  idempotent: from any later state with that table, a further \<open>atomtypes\<close> line with one
  bonus field leaves the table unchanged.  All of this holds whether or not the call
  raises afterwards.
\<close>

theorem atomtypes_bonus_shift:
  assumes "data_line line" and "sec self = Some ''atomtypes''"
    and "parse_atomtype_line line = Inr (Some a)" and "bonus a = 1"
  shows "pdict_lookup (pdict (snd (feed self line))) ''VDW'' (k + 1)
           = pdict_lookup pdict_initial ''VDW'' k
       \<and> pdict_lookup (pdict (snd (feed self line))) ''VDW_BHAM'' (k + 1)
           = pdict_lookup pdict_initial ''VDW_BHAM'' k
       \<and> pdict (snd (feed self line)) ''VPAIR'' = pdict self ''VPAIR''
       \<and> pdict (snd (feed self line)) ''VPAIR_BHAM'' = pdict self ''VPAIR_BHAM''
       \<and> (data_line line2 \<and> sec self2 = Some ''atomtypes''
            \<and> parse_atomtype_line line2 = Inr (Some a2) \<and> bonus a2 = 1
            \<and> pdict self2 = pdict (snd (feed self line))
          \<longrightarrow> pdict (snd (feed self2 line2)) = pdict (snd (feed self line)))"
proof -
  have p1: "pdict (snd (feed self line)) =
      (pdict self)(''VDW'' \<mapsto> map_of [(5, ''S''), (6, ''T'')],
                   ''VDW_BHAM'' \<mapsto> map_of [(5, ''A''), (6, ''B''), (7, ''C'')])"
    using assms by (simp add: feed_pdict feed_atomtypes_pdict)
  have a: "pdict_lookup (pdict (snd (feed self line))) ''VDW'' (k + 1)
           = pdict_lookup pdict_initial ''VDW'' k"
    by (simp add: p1 pdict_lookup_def pdict_initial_def)
  have b: "pdict_lookup (pdict (snd (feed self line))) ''VDW_BHAM'' (k + 1)
           = pdict_lookup pdict_initial ''VDW_BHAM'' k"
    by (simp add: p1 pdict_lookup_def pdict_initial_def)
  have c: "pdict (snd (feed self line)) ''VPAIR'' = pdict self ''VPAIR''"
    by (simp add: p1)
  have d: "pdict (snd (feed self line)) ''VPAIR_BHAM'' = pdict self ''VPAIR_BHAM''"
    by (simp add: p1)
  have e: "pdict (snd (feed self2 line2)) = pdict (snd (feed self line))"
    if "data_line line2" "sec self2 = Some ''atomtypes''"
      "parse_atomtype_line line2 = Inr (Some a2)" "bonus a2 = 1"
      "pdict self2 = pdict (snd (feed self line))"
  proof -
    have "pdict (snd (feed self2 line2)) =
        (pdict self2)(''VDW'' \<mapsto> map_of [(5, ''S''), (6, ''T'')],
                      ''VDW_BHAM'' \<mapsto> map_of [(5, ''A''), (6, ''B''), (7, ''C'')])"
      using that(1-4) by (simp add: feed_pdict feed_atomtypes_pdict)
    also have "\<dots> = pdict (snd (feed self line))"
      unfolding that(5) p1 by (rule ext) simp
    finally show ?thesis .
  qed
  from a b c d e show ?thesis by blast
qed

theorem atomtypes_bonus_shift_witness:
  "pdict_lookup (pdict (snd (feed r_atomtypes ''Na 11 22.9897 0.0000 A 6.068e+03 2.662e+01'')))
      ''VDW'' 5 = Some ''S''
   \<and> pdict (snd (feed (snd (feed r_atomtypes ''Na 11 22.9897 0.0000 A 6.068e+03 2.662e+01''))
                     ''Na 11 22.9897 0.0000 A 6.068e+03 2.662e+01''))
     = pdict (snd (feed r_atomtypes ''Na 11 22.9897 0.0000 A 6.068e+03 2.662e+01''))"
proof -
  let ?l = "''Na 11 22.9897 0.0000 A 6.068e+03 2.662e+01''"
  let ?a = "\<lparr>atomtype = ''Na'', batomtype = ''Na'', atomicnum = 11, mass = ''22.9897'',
             chg = ''0.0000'', ptp = ''A'', param = [''6.068e+03'', ''2.662e+01''], bonus = 1\<rparr>"
  have s1: "sec r_atomtypes = Some ''atomtypes''" by (simp add: r_atomtypes_def init_reader_def)
  have s2: "sec (snd (feed r_atomtypes ?l)) = Some ''atomtypes''" by code_simp
  have b1: "bonus ?a = 1" by simp
  have i: "pdict_lookup pdict_initial ''VDW'' 4 = Some ''S''"
    by (simp add: pdict_lookup_def pdict_initial_def)
  note t = atomtypes_bonus_shift [OF data_line_na s1 parse_one_bonus b1,
      of 4 ?l "snd (feed r_atomtypes ?l)" ?a]
  from t i s2 data_line_na parse_one_bonus show ?thesis by simp
qed

subsection \<open>The entries of the proper dihedrals (C9)\<close>

text \<open>
  C9 as stated fails.  A \<open>dihedraltypes\<close> line of multiplicity 7 resolves to \<open>PDIHS7\<close>,
  for which the table has no entry, and there is no base entry \<open>PDIHS\<close> that a lookup
  could fall back to.
\<close>

theorem pdihs7_has_no_entry:
  "itype (snd (feed r_dihedraltypes ''A B C D 1 180.0 5.0 7'')) = Some ''PDIHS7''
   \<and> pdict (snd (feed r_dihedraltypes ''A B C D 1 180.0 5.0 7'')) ''PDIHS7'' = None
   \<and> pdict (snd (feed r_dihedraltypes ''A B C D 1 180.0 5.0 7'')) ''PDIHS'' = None"
proof -
  have "itype (snd (feed r_dihedraltypes ''A B C D 1 180.0 5.0 7'')) = Some ''PDIHS7''"
    by code_simp
  moreover have "pdict (snd (feed r_dihedraltypes ''A B C D 1 180.0 5.0 7'')) = pdict_initial"
    by (simp add: feed_pdict r_dihedraltypes_def init_reader_def)
  moreover have "pdict_initial ''PDIHS7'' = None" "pdict_initial ''PDIHS'' = None"
    by (simp_all add: pdict_initial_def)
  ultimately show ?thesis by simp
qed

text \<open>
  C9, amended.  For each multiplicity from 1 to 6 the table of the module holds an entry
  under the full name \<open>PDIHS1\<close>, ..., \<open>PDIHS6\<close> that maps field 5 to \<open>B\<close> and field 6 to
  \<open>K\<close>, and no call of \<open>feed\<close> replaces it; names are looked up as they are, and the
  table has no entry under the bare name \<open>PDIHS\<close>.
\<close>

theorem pdihs_entries:
  "(m \<in> set [''1'', ''2'', ''3'', ''4'', ''5'', ''6''] \<longrightarrow>
      pdict_lookup pdict_initial (''PDIHS'' @ m) 5 = Some ''B''
      \<and> pdict_lookup pdict_initial (''PDIHS'' @ m) 6 = Some ''K''
      \<and> pdict (snd (feed self line)) (''PDIHS'' @ m) = pdict self (''PDIHS'' @ m))
   \<and> pdict_initial ''PDIHS'' = None"
proof -
  have "pdict (snd (feed self line)) (''PDIHS'' @ m) = pdict self (''PDIHS'' @ m)"
    by (simp add: feed_pdict feed_atomtypes_pdict split: sum.splits option.splits)
  moreover have "pdict_initial ''PDIHS'' = None" by (simp add: pdict_initial_def)
  moreover have "m \<in> set [''1'', ''2'', ''3'', ''4'', ''5'', ''6''] \<Longrightarrow>
      pdict_lookup pdict_initial (''PDIHS'' @ m) 5 = Some ''B''
      \<and> pdict_lookup pdict_initial (''PDIHS'' @ m) 6 = Some ''K''"
    by (auto simp: pdict_lookup_def pdict_initial_def)
  ultimately show ?thesis by blast
qed

theorem pdihs_entries_witness:
  "pdict_lookup pdict_initial ''PDIHS3'' 5 = Some ''B''
   \<and> pdict_lookup pdict_initial ''PDIHS3'' 6 = Some ''K''
   \<and> pdict (snd (feed r_dihedraltypes ''A B C D 1 180.0 5.0 3'')) ''PDIHS3''
       = pdict r_dihedraltypes ''PDIHS3''"
  using pdihs_entries [of "''3''" r_dihedraltypes "''A B C D 1 180.0 5.0 3''"] by simp

subsection \<open>The canonical order of the atoms (C5)\<close>

text \<open>
  Where the two ends of a tuple differ, both atom orders have the same canonical form.
\<close>

lemma canonical_rev:
  assumes "atom \<noteq> []" and "hd atom \<noteq> last atom"
  shows "canonical (rev atom) = canonical atom"
proof -
  have l: "1 < length atom"
  proof (rule ccontr)
    assume "\<not> 1 < length atom"
    with assms(1) have "length atom = 1" by (cases atom) auto
    then obtain x where "atom = [x]" by (cases atom) auto
    with assms(2) show False by simp
  qed
  from assms(2) consider "hd atom < last atom" | "last atom < hd atom" by fastforce
  then show ?thesis
  proof cases
    case 1
    then have "\<not> last atom < hd atom" by simp
    with 1 l assms(1) show ?thesis by (simp add: canonical_def hd_rev last_rev)
  next
    case 2
    then have "\<not> hd atom < last atom" by simp
    with 2 l assms(1) show ?thesis by (simp add: canonical_def hd_rev last_rev)
  qed
qed

text \<open>
  C5.  The same interaction given in either atom order is said to get the same suffix.
  The test \<open>atom[0] > atom[-1]\<close> looks at the two ends only: when they are equal and the
  inner atoms differ, neither order is reversed and the two suffixes differ.
\<close>

theorem dihedraltypes_reversed_differs:
  "suffix (snd (feed r_dihedraltypes ''HC CT CM HC 1 180.0 5.0 2'')) = Some ''HCCTCMHC''
   \<and> suffix (snd (feed r_dihedraltypes ''HC CM CT HC 1 180.0 5.0 2'')) = Some ''HCCMCTHC''"
  by code_simp

subsection \<open>Failing atom lookups (C6)\<close>

lemma feed_atom_lookup_raises:
  assumes "data_line line" and "sec self = Some name"
    and "(name, n) \<in> set [(''bonds'', 2), (''angles'', 3), (''dihedrals'', 4)]"
    and "lookup_atoms self (take n (split_ws line)) = Inl e"
  shows "fst (feed self line) = Inl e"
proof -
  from assms(3) consider "name = ''bonds'' \<and> n = 2" | "name = ''angles'' \<and> n = 3"
    | "name = ''dihedrals'' \<and> n = 4" by auto
  then show ?thesis
  proof cases
    case 1
    with assms show ?thesis
      by (simp add: feed_on_data_line feed_section_def data_line_def feed_topol_def)
  next
    case 2
    with assms show ?thesis
      by (simp add: feed_on_data_line feed_section_def data_line_def feed_topol_def)
  next
    case 3
    with assms show ?thesis
      by (simp add: feed_on_data_line feed_section_def data_line_def feed_topol_def
          feed_dihedrals_def)
  qed
qed

lemma lookup_atoms_unset:
  "res_table self = None \<Longrightarrow> fs \<noteq> [] \<Longrightarrow> lookup_atoms self fs = Inl KeyError"
  by (cases fs) simp_all

lemma lookup_atoms_out_of_range:
  assumes "res_table self = Some tbl"
  shows "\<forall>f\<in>set fs. py_int f \<noteq> None \<Longrightarrow>
         \<exists>f\<in>set fs. (case py_int f of None \<Rightarrow> False | Some i \<Rightarrow> int (length tbl) < i) \<Longrightarrow>
         lookup_atoms self fs = Inl IndexError"
proof (induction fs)
  case Nil
  then show ?case by simp
next
  case (Cons f fs)
  from Cons.prems(1) obtain i where i: "py_int f = Some i" by auto
  show ?case
  proof (cases "py_index tbl (i - 1)")
    case (Inl e)
    then have "e = IndexError" by (simp add: py_index_def split: if_splits)
    with Inl i assms show ?thesis by simp
  next
    case (Inr a)
    then have "\<not> int (length tbl) < i" by (simp add: py_index_def split: if_splits)
    with Cons.prems(2) i
    have "\<exists>f\<in>set fs. (case py_int f of None \<Rightarrow> False | Some i \<Rightarrow> int (length tbl) < i)"
      by auto
    with Cons.IH Cons.prems(1) have "lookup_atoms self fs = Inl IndexError" by simp
    with Inr i assms show ?thesis by simp
  qed
qed

lemma take_fields_nonempty:
  "data_line line \<Longrightarrow> (name, n) \<in> set [(''bonds'', 2), (''angles'', 3), (''dihedrals'', 4)] \<Longrightarrow>
   take n (split_ws line) \<noteq> []"
  by (auto simp: data_line_def)

text \<open>
  C6.  In the sections \<open>bonds\<close>, \<open>angles\<close> and \<open>dihedrals\<close>, a data line fed while no
  atom table is registered under the current residue (the residue is unset, or no atom
  of it was fed) raises KeyError; and a line whose atom-index fields are all integers,
  one of them greater than the number of atoms registered for the current residue (index
  5 with 4 atoms, say), raises IndexError.  Both are the failure of the lookup
  \<open>self.adict[self.res][int(i) - 1]\<close>.
\<close>

theorem feed_index_lookup_failure:
  assumes "data_line line" and "sec self = Some name"
    and "(name, n) \<in> set [(''bonds'', 2), (''angles'', 3), (''dihedrals'', 4)]"
  shows "(res_table self = None \<longrightarrow> fst (feed self line) = Inl KeyError)
       \<and> (\<forall>tbl. res_table self = Some tbl
              \<and> (\<forall>f\<in>set (take n (split_ws line)). py_int f \<noteq> None)
              \<and> (\<exists>f\<in>set (take n (split_ws line)).
                    (case py_int f of None \<Rightarrow> False | Some i \<Rightarrow> int (length tbl) < i))
            \<longrightarrow> fst (feed self line) = Inl IndexError)"
proof (intro conjI impI allI)
  assume "res_table self = None"
  then have "lookup_atoms self (take n (split_ws line)) = Inl KeyError"
    using take_fields_nonempty [OF assms(1,3)] by (rule lookup_atoms_unset)
  then show "fst (feed self line) = Inl KeyError"
    by (rule feed_atom_lookup_raises [OF assms])
next
  fix tbl
  assume h: "res_table self = Some tbl
              \<and> (\<forall>f\<in>set (take n (split_ws line)). py_int f \<noteq> None)
              \<and> (\<exists>f\<in>set (take n (split_ws line)).
                    (case py_int f of None \<Rightarrow> False | Some i \<Rightarrow> int (length tbl) < i))"
  then have "lookup_atoms self (take n (split_ws line)) = Inl IndexError"
    using lookup_atoms_out_of_range [of self tbl "take n (split_ws line)"] by blast
  then show "fst (feed self line) = Inl IndexError"
    by (rule feed_atom_lookup_raises [OF assms])
qed

theorem feed_index_lookup_failure_witness:
  "fst (feed r_water_bonds ''5 2 1 0.09 1000'') = Inl IndexError
   \<and> fst (feed (init_reader\<lparr>sec := Some ''bonds''\<rparr>) ''1 2 1 0.09 1000'') = Inl KeyError"
proof -
  have d1: "data_line ''5 2 1 0.09 1000''" by code_simp
  have d2: "data_line ''1 2 1 0.09 1000''" by code_simp
  have s1: "sec r_water_bonds = Some ''bonds''" by (simp add: r_water_bonds_def init_reader_def)
  have s2: "sec (init_reader\<lparr>sec := Some ''bonds''\<rparr>) = Some ''bonds''" by simp
  have m: "(''bonds'', 2::nat) \<in> set [(''bonds'', 2), (''angles'', 3), (''dihedrals'', 4)]"
    by simp
  have t: "res_table r_water_bonds = Some [''OW'', ''HW1'', ''HW2'', ''MW'']" by code_simp
  have u: "res_table (init_reader\<lparr>sec := Some ''bonds''\<rparr>) = None" by code_simp
  have a: "\<forall>f\<in>set (take 2 (split_ws ''5 2 1 0.09 1000'')). py_int f \<noteq> None" by code_simp
  have b: "\<exists>f\<in>set (take 2 (split_ws ''5 2 1 0.09 1000'')).
      (case py_int f of None \<Rightarrow> False
       | Some i \<Rightarrow> int (length [''OW'', ''HW1'', ''HW2'', ''MW'']) < i)" by code_simp
  from feed_index_lookup_failure [OF d1 s1 m] t a b
  have "fst (feed r_water_bonds ''5 2 1 0.09 1000'') = Inl IndexError" by blast
  moreover from feed_index_lookup_failure [OF d2 s2 m] u
  have "fst (feed (init_reader\<lparr>sec := Some ''bonds''\<rparr>) ''1 2 1 0.09 1000'') = Inl KeyError"
    by blast
  ultimately show ?thesis by simp
qed

subsection \<open>The atom index 0 (C10)\<close>

lemma py_int_zero: "py_int ''0'' = Some 0"
  by code_simp

lemma py_index_in_range:
  assumes "1 - int (length tbl) \<le> i" and "i \<le> int (length tbl)" and "tbl \<noteq> []"
  shows "\<exists>a. py_index tbl (i - 1) = Inr a \<and> (i = 0 \<longrightarrow> a = last tbl)"
proof (cases "i = 0")
  case True
  with assms(3) show ?thesis
    by (cases tbl rule: rev_cases) (simp_all add: py_index_def nth_append)
next
  case False
  with assms show ?thesis by (auto simp: py_index_def)
qed

lemma lookup_atoms_in_range:
  assumes "res_table self = Some tbl" and "tbl \<noteq> []"
  shows "\<forall>f\<in>set fs. (case py_int f of None \<Rightarrow> False
                      | Some i \<Rightarrow> 1 - int (length tbl) \<le> i \<and> i \<le> int (length tbl)) \<Longrightarrow>
         \<exists>atoms. lookup_atoms self fs = Inr atoms \<and> length atoms = length fs
            \<and> (\<forall>j<length fs. fs ! j = ''0'' \<longrightarrow> atoms ! j = last tbl)"
proof (induction fs)
  case Nil
  then show ?case by simp
next
  case (Cons f fs)
  from Cons.prems obtain i where i: "py_int f = Some i"
    and r: "1 - int (length tbl) \<le> i" "i \<le> int (length tbl)"
    by (auto split: option.splits)
  from py_index_in_range [OF r assms(2)] obtain a
    where a: "py_index tbl (i - 1) = Inr a" and z: "i = 0 \<longrightarrow> a = last tbl" by blast
  from Cons.IH Cons.prems obtain atoms
    where at: "lookup_atoms self fs = Inr atoms" "length atoms = length fs"
      "\<forall>j<length fs. fs ! j = ''0'' \<longrightarrow> atoms ! j = last tbl" by auto
  have l: "lookup_atoms self (f # fs) = Inr (a # atoms)"
    using assms(1) i a at(1) by simp
  have "\<forall>j<length (f # fs). (f # fs) ! j = ''0'' \<longrightarrow> (a # atoms) ! j = last tbl"
  proof (intro allI impI)
    fix j assume j: "j < length (f # fs)" and e: "(f # fs) ! j = ''0''"
    show "(a # atoms) ! j = last tbl"
    proof (cases j)
      case 0
      with e have "f = ''0''" by simp
      with i py_int_zero have "i = 0" by simp
      with z 0 show ?thesis by simp
    next
      case (Suc k)
      with j e at(3) show ?thesis by simp
    qed
  qed
  with l at(2) show ?case by simp
qed

lemma py_index_long: "8 \<le> length s \<Longrightarrow> py_index s 7 = Inr (s ! 7)"
  by (simp add: py_index_def)

lemma feed_topol_line:
  assumes "data_line line" and "sec self = Some name"
    and "(name, n) \<in> set [(''bonds'', 2), (''angles'', 3), (''dihedrals'', 4)]"
    and "lookup_atoms self (take n (split_ws line)) = Inr atoms"
    and "code_itype name (split_ws line) (int n) = Inr it"
    and "\<not> (name = ''dihedrals'' \<and> it = Some ''PDIHS'' \<and> length (split_ws line) = 7)"
  shows "fst (feed self line) = Inr PNone
       \<and> suffix (snd (feed self line)) = Some (concat (canonical atoms))"
proof -
  from assms(3) consider "name = ''bonds'' \<and> n = 2" | "name = ''angles'' \<and> n = 3"
    | "name = ''dihedrals'' \<and> n = 4" by auto
  then show ?thesis
  proof cases
    case 1
    with assms show ?thesis
      by (simp add: feed_on_data_line feed_section_def data_line_def feed_topol_def)
  next
    case 2
    with assms show ?thesis
      by (simp add: feed_on_data_line feed_section_def data_line_def feed_topol_def)
  next
    case 3
    show ?thesis
    proof (cases "it = Some ''PDIHS'' \<and> 7 \<le> length (split_ws line)")
      case True
      with assms(6) 3 have "8 \<le> length (split_ws line)" by auto
      from py_index_long [OF this] True 3 assms show ?thesis
        by (simp add: feed_on_data_line feed_section_def data_line_def feed_topol_def
            feed_dihedrals_def add_multiplicity_def)
    next
      case False
      with 3 assms show ?thesis
        by (auto simp: feed_on_data_line feed_section_def data_line_def feed_topol_def
            feed_dihedrals_def add_multiplicity_def)
    qed
  qed
qed

text \<open>
  C10.  In the sections \<open>bonds\<close>, \<open>angles\<close> and \<open>dihedrals\<close>, with a non-empty table
  registered for the current residue and every atom-index field an integer that the
  Python list index accepts (from \<open>1 - len\<close> to \<open>len\<close>, the field \<open>0\<close> among them), the
  atom lookup raises nothing, and every field \<open>0\<close> (list index \<open>-1\<close>) resolves to the
  last atom registered.  When the function type resolves as well, the call returns \<open>None\<close>
  with the suffix built from those atoms; the one exception is the proper dihedral of
  exactly seven fields, which raises for another reason.
\<close>

theorem index_zero_is_last_atom:
  assumes "data_line line" and "sec self = Some name"
    and "(name, n) \<in> set [(''bonds'', 2), (''angles'', 3), (''dihedrals'', 4)]"
    and "res_table self = Some tbl" and "tbl \<noteq> []"
    and "\<forall>f\<in>set (take n (split_ws line)).
           (case py_int f of None \<Rightarrow> False
            | Some i \<Rightarrow> 1 - int (length tbl) \<le> i \<and> i \<le> int (length tbl))"
  shows "\<exists>atoms. lookup_atoms self (take n (split_ws line)) = Inr atoms
           \<and> length atoms = length (take n (split_ws line))
           \<and> (\<forall>j<length atoms. split_ws line ! j = ''0'' \<longrightarrow> atoms ! j = last tbl)
           \<and> (\<forall>it. code_itype name (split_ws line) (int n) = Inr it
                  \<and> \<not> (name = ''dihedrals'' \<and> it = Some ''PDIHS'' \<and> length (split_ws line) = 7)
                \<longrightarrow> fst (feed self line) = Inr PNone
                    \<and> suffix (snd (feed self line)) = Some (concat (canonical atoms)))"
proof -
  from lookup_atoms_in_range [OF assms(4,5,6)] obtain atoms
    where at: "lookup_atoms self (take n (split_ws line)) = Inr atoms"
      "length atoms = length (take n (split_ws line))"
      "\<forall>j<length (take n (split_ws line)).
          take n (split_ws line) ! j = ''0'' \<longrightarrow> atoms ! j = last tbl" by blast
  have z: "\<forall>j<length atoms. split_ws line ! j = ''0'' \<longrightarrow> atoms ! j = last tbl"
    using at(2,3) by simp
  have "\<forall>it. code_itype name (split_ws line) (int n) = Inr it
            \<and> \<not> (name = ''dihedrals'' \<and> it = Some ''PDIHS'' \<and> length (split_ws line) = 7)
          \<longrightarrow> fst (feed self line) = Inr PNone
              \<and> suffix (snd (feed self line)) = Some (concat (canonical atoms))"
    using feed_topol_line [OF assms(1,2,3) at(1)] by blast
  with at(1,2) z show ?thesis by blast
qed

theorem index_zero_is_last_atom_witness:
  "\<exists>atoms. lookup_atoms r_water_bonds (take 2 (split_ws ''0 2 1 0.09 1000'')) = Inr atoms
      \<and> atoms ! 0 = ''MW''
      \<and> fst (feed r_water_bonds ''0 2 1 0.09 1000'') = Inr PNone"
proof -
  let ?l = "''0 2 1 0.09 1000''"
  have d: "data_line ?l" by code_simp
  have s: "sec r_water_bonds = Some ''bonds''" by (simp add: r_water_bonds_def init_reader_def)
  have m: "(''bonds'', 2::nat) \<in> set [(''bonds'', 2), (''angles'', 3), (''dihedrals'', 4)]"
    by simp
  have t: "res_table r_water_bonds = Some [''OW'', ''HW1'', ''HW2'', ''MW'']" by code_simp
  have n: "[''OW'', ''HW1'', ''HW2'', ''MW''] \<noteq> []" by simp
  have a: "\<forall>f\<in>set (take 2 (split_ws ?l)).
           (case py_int f of None \<Rightarrow> False
            | Some i \<Rightarrow> 1 - int (length [''OW'', ''HW1'', ''HW2'', ''MW'']) \<le> i
                       \<and> i \<le> int (length [''OW'', ''HW1'', ''HW2'', ''MW'']))" by code_simp
  have c: "code_itype ''bonds'' (split_ws ?l) (int 2) = Inr (Some ''BONDS'')" by code_simp
  have z: "split_ws ?l ! 0 = ''0''" by code_simp
  have k: "length (take 2 (split_ws ?l)) = 2" by code_simp
  from index_zero_is_last_atom [OF d s m t n a] obtain atoms where
    at: "lookup_atoms r_water_bonds (take 2 (split_ws ?l)) = Inr atoms"
      "length atoms = length (take 2 (split_ws ?l))"
      "\<forall>j<length atoms. split_ws ?l ! j = ''0'' \<longrightarrow>
          atoms ! j = last [''OW'', ''HW1'', ''HW2'', ''MW'']"
      "\<forall>it. code_itype ''bonds'' (split_ws ?l) (int 2) = Inr it
            \<and> \<not> (''bonds'' = ''dihedrals'' \<and> it = Some ''PDIHS'' \<and> length (split_ws ?l) = 7)
          \<longrightarrow> fst (feed r_water_bonds ?l) = Inr PNone
              \<and> suffix (snd (feed r_water_bonds ?l)) = Some (concat (canonical atoms))"
    by blast
  from at(2) k have "0 < length atoms" by simp
  with at(3) [rule_format, of 0] z have "atoms ! 0 = ''MW''" by simp
  moreover from at(4) c have "fst (feed r_water_bonds ?l) = Inr PNone" by simp
  ultimately show ?thesis using at(1) by blast
qed

subsection \<open>Lines of the \<open>atoms\<close> section (C3)\<close>

text \<open>
  C3 as stated fails.  The call does not return the single-element list of the atom
  name: the branch of the \<open>atoms\<close> section falls through to the end of the method, which
  has no \<open>return\<close> statement, so the call returns \<open>None\<close>.  The atom name is left in the
  attribute \<open>suffix\<close> and the Coulomb tag in the attribute \<open>itype\<close>.
\<close>

theorem atoms_line_returns_none:
  "fst (feed r_wat_atoms ''1 OW 1 WAT OW 1 -0.8 16.0'') = Inr PNone
   \<and> itype (snd (feed r_wat_atoms ''1 OW 1 WAT OW 1 -0.8 16.0'')) = Some ''COUL''
   \<and> suffix (snd (feed r_wat_atoms ''1 OW 1 WAT OW 1 -0.8 16.0'')) = Some ''OW''
   \<and> res_table (snd (feed r_wat_atoms ''1 OW 1 WAT OW 1 -0.8 16.0'')) = Some [''OW'']"
  by code_simp

text \<open>The whole effect of a call on a data line of the \<open>atoms\<close> section.\<close>

lemma py_index_nat: "k < length xs \<Longrightarrow> py_index xs (int k) = Inr (xs ! k)"
  by (simp add: py_index_def)

lemma feed_atoms_line:
  assumes "data_line line" and "sec self = Some ''atoms''" and "5 \<le> length (split_ws line)"
  shows "feed self line =
      (Inr PNone,
       self\<lparr>itype := Some ''COUL'', ln := ln self + 1,
            adict := (adict self)
              (split_ws line ! 3 \<mapsto>
                 (case adict self (split_ws line ! 3) of None \<Rightarrow> [] | Some l \<Rightarrow> l)
                 @ [split_ws line ! 4]),
            suffix := Some (split_ws line ! 4)\<rparr>)"
proof -
  let ?s = "split_ws line"
  have i4: "py_index ?s 4 = Inr (?s ! 4)" using assms(3) py_index_nat [of 4 ?s] by simp
  have i3: "py_index ?s 3 = Inr (?s ! 3)" using assms(3) py_index_nat [of 3 ?s] by simp
  show ?thesis
    using assms(1,2) i3 i4
    by (simp add: feed_on_data_line feed_section_def data_line_def feed_atoms_def canonical_def)
qed

text \<open>
  C3, amended.  For every data line of at least five fields fed in the \<open>atoms\<close> section,
  the call returns \<open>None\<close>, the attribute \<open>itype\<close> is the Coulomb tag \<open>COUL\<close>, the
  attribute \<open>suffix\<close> is the atom name at field 4, and the current residue is unchanged;
  when field 3 of the line names the current residue, the atom name is appended to the
  table of the current residue (an absent table counting as empty), so that the table is
  one longer and the new atom's 1-based index, the table's new length, looks up that
  name.
\<close>

theorem atoms_line_appends:
  assumes "data_line line" and "sec self = Some ''atoms''" and "5 \<le> length (split_ws line)"
  shows "fst (feed self line) = Inr PNone
       \<and> itype (snd (feed self line)) = Some ''COUL''
       \<and> suffix (snd (feed self line)) = Some (split_ws line ! 4)
       \<and> res (snd (feed self line)) = res self
       \<and> (res self = Some (split_ws line ! 3) \<longrightarrow>
            res_table (snd (feed self line))
              = Some ((case res_table self of None \<Rightarrow> [] | Some l \<Rightarrow> l) @ [split_ws line ! 4])
            \<and> (\<forall>tbl. res_table (snd (feed self line)) = Some tbl \<longrightarrow>
                  length tbl = Suc (length (case res_table self of None \<Rightarrow> [] | Some l \<Rightarrow> l))
                  \<and> py_index tbl (int (length tbl) - 1) = Inr (split_ws line ! 4)))"
  by (simp add: feed_atoms_line [OF assms] res_table_def py_index_def)

text \<open>The first atom of the molecule type \<open>WAT\<close>.\<close>

theorem atoms_line_appends_witness:
  "fst (feed r_wat_atoms ''1 OW 1 WAT OW 1 -0.8 16.0'') = Inr PNone
   \<and> itype (snd (feed r_wat_atoms ''1 OW 1 WAT OW 1 -0.8 16.0'')) = Some ''COUL''
   \<and> suffix (snd (feed r_wat_atoms ''1 OW 1 WAT OW 1 -0.8 16.0'')) = Some ''OW''
   \<and> res_table (snd (feed r_wat_atoms ''1 OW 1 WAT OW 1 -0.8 16.0'')) = Some ([] @ [''OW''])"
proof -
  have d: "data_line ''1 OW 1 WAT OW 1 -0.8 16.0''" by code_simp
  have s: "sec r_wat_atoms = Some ''atoms''" by (simp add: r_wat_atoms_def init_reader_def)
  have l: "5 \<le> length (split_ws ''1 OW 1 WAT OW 1 -0.8 16.0'')" by code_simp
  have e: "split_ws ''1 OW 1 WAT OW 1 -0.8 16.0'' ! 4 = ''OW''" by code_simp
  have f: "split_ws ''1 OW 1 WAT OW 1 -0.8 16.0'' ! 3 = ''WAT''" by code_simp
  have r: "res r_wat_atoms = Some ''WAT''" by (simp add: r_wat_atoms_def init_reader_def)
  have t: "res_table r_wat_atoms = None" by code_simp
  from atoms_line_appends [OF d s l] e f r t show ?thesis by simp
qed

text \<open>
  The table that the line writes is the one named by its field 3.  A line whose field 3
  is not the current residue leaves the table of the current residue as it was, and a
  \<open>bonds\<close> line that follows finds no table under the current residue.
\<close>

lemma atoms_line_other_residue:
  "adict (snd (feed r_sol_atoms ''1 OW 1 WAT OW 1 -0.8 16.0'')) ''SOL'' = None
   \<and> adict (snd (feed r_sol_atoms ''1 OW 1 WAT OW 1 -0.8 16.0'')) ''WAT'' = Some [''OW'']
   \<and> fst (feed_all r_sol_atoms
        [''1 OW 1 WAT OW 1 -0.8 16.0'', ''2 HW 1 WAT HW1 1 0.4 1.0'', ''[ bonds ]'',
         ''1 2 1 0.1 1000.0'']) = Inl KeyError"
  by code_simp

subsection \<open>Text after a semicolon (C4)\<close>

text \<open>
  C4 as stated fails.  \<open>feed\<close> splits the whole line, and the fields after a semicolon
  count: in \<open>dihedraltypes\<close> the line \<open>A B C D 1 ; a b 2\<close> has nine fields, field 7 is
  \<open>b\<close>, and the type is \<open>PDIHSb\<close>, whereas the same line without the comment resolves to
  \<open>PDIHS\<close>.
\<close>

theorem comment_fields_are_counted:
  "itype (snd (feed r_dihedraltypes ''A B C D 1 ; a b 2'')) = Some ''PDIHSb''
   \<and> itype (snd (feed r_dihedraltypes ''A B C D 1'')) = Some ''PDIHS''"
  by code_simp

text \<open>
  Only \<open>parse_atomtype_line\<close> cuts the line at its first semicolon.  A line keeps its
  class (data line or not a section header) when text is added after a field.
\<close>

lemma split_acc_empty: "split_acc w l = [] \<longleftrightarrow> w = [] \<and> (\<forall>c\<in>set l. is_space c)"
  by (induction l arbitrary: w) auto

lemma split_ws_append_nonempty: "split_ws body \<noteq> [] \<Longrightarrow> split_ws (body @ rest) \<noteq> []"
  by (auto simp: split_ws_def split_acc_empty)

lemma set_takeWhile_append: "set (takeWhile P xs) \<subseteq> set (takeWhile P (xs @ ys))"
  by (induction xs) auto

lemma is_section_header_prefix:
  "is_section_header body \<Longrightarrow> is_section_header (body @ rest)"
  by (cases body) (auto simp: is_section_header_def dest: subsetD [OF set_takeWhile_append])

lemma parse_atomtype_line_comment:
  assumes h: "CHR '';'' \<notin> set body"
  shows "parse_atomtype_line (body @ CHR '';'' # c) = parse_atomtype_line body"
proof -
  have "takeWhile (\<lambda>c. c \<noteq> CHR '';'') (body @ CHR '';'' # c)
      = body @ takeWhile (\<lambda>c. c \<noteq> CHR '';'') (CHR '';'' # c)"
    by (rule takeWhile_append2) (use h in blast)
  then have e1: "takeWhile (\<lambda>c. c \<noteq> CHR '';'') (body @ CHR '';'' # c) = body"
    by simp
  have e2: "takeWhile (\<lambda>c. c \<noteq> CHR '';'') body = body"
    unfolding takeWhile_eq_all_conv using h by blast
  show ?thesis by (simp only: parse_atomtype_line_def e1 e2)
qed

lemma feed_atomtypes_comment:
  assumes "sec self = Some ''atomtypes''" and "CHR '';'' \<notin> set body"
    and "split_ws body \<noteq> []" and "\<not> is_section_header (body @ CHR '';'' # c)"
  shows "feed self (body @ CHR '';'' # c) = feed self body"
proof -
  have ne: "body \<noteq> []" using assms(3) by (auto simp: split_ws_def)
  have c1: "\<not> is_comment_line body" using ne assms(2)
    by (cases body) (auto simp: is_comment_line_def)
  have c2: "\<not> is_comment_line (body @ CHR '';'' # c)" using ne assms(2)
    by (cases body) (auto simp: is_comment_line_def)
  have h1: "\<not> is_section_header body" using assms(4) is_section_header_prefix by blast
  have d1: "data_line body" using assms(3) c1 h1 by (simp add: data_line_def)
  have d2: "data_line (body @ CHR '';'' # c)"
    using split_ws_append_nonempty [OF assms(3)] c2 assms(4) by (simp add: data_line_def)
  have p: "parse_atomtype_line (body @ CHR '';'' # c) = parse_atomtype_line body"
    using assms(2) by (rule parse_atomtype_line_comment)
  show ?thesis
    using assms(1,4) h1 d1 d2 p
    by (simp add: feed_on_data_line feed_section_def feed_atomtypes_def)
qed

text \<open>
  C4, amended.  \<open>parse_atomtype_line\<close> reads only the text before the first semicolon of
  its line: with and without the text from the semicolon on, it gives the same result.
  In the \<open>atomtypes\<close> section, for a line that is not a section header and has at least
  one field before its first semicolon, feeding the line with or without the text from
  the semicolon on gives the same outcome and the same reader afterwards.
\<close>

theorem atomtypes_comment_stripped:
  assumes "CHR '';'' \<notin> set body"
  shows "parse_atomtype_line (body @ CHR '';'' # c) = parse_atomtype_line body
       \<and> (sec self = Some ''atomtypes'' \<and> split_ws body \<noteq> []
            \<and> \<not> is_section_header (body @ CHR '';'' # c)
          \<longrightarrow> feed self (body @ CHR '';'' # c) = feed self body)"
  using parse_atomtype_line_comment [OF assms] feed_atomtypes_comment [OF _ assms]
  by blast

text \<open>An \<open>atomtypes\<close> line with the comment that marks two of its fields as parameters.\<close>

theorem atomtypes_comment_stripped_witness:
  "parse_atomtype_line ''Na 11 22.9897 0.0000 A 6.068e+03 2.662e+01 ; PARM 5 6''
     = parse_atomtype_line ''Na 11 22.9897 0.0000 A 6.068e+03 2.662e+01 ''
   \<and> feed r_atomtypes ''Na 11 22.9897 0.0000 A 6.068e+03 2.662e+01 ; PARM 5 6''
     = feed r_atomtypes ''Na 11 22.9897 0.0000 A 6.068e+03 2.662e+01 ''"
proof -
  let ?b = "''Na 11 22.9897 0.0000 A 6.068e+03 2.662e+01 ''"
  have s: "sec r_atomtypes = Some ''atomtypes''" by (simp add: r_atomtypes_def init_reader_def)
  have n: "CHR '';'' \<notin> set ?b" by simp
  have w: "split_ws ?b \<noteq> []" by code_simp
  have h: "\<not> is_section_header (?b @ CHR '';'' # '' PARM 5 6'')" by code_simp
  from atomtypes_comment_stripped [OF n, of "'' PARM 5 6''" r_atomtypes] s w h
  show ?thesis by simp
qed

subsection \<open>What a call of \<open>feed\<close> returns on a data line (C1)\<close>

text \<open>
  C1 as stated fails.  On a data line of a recognised section the method reaches its end
  without a \<open>return\<close> statement: the call returns \<open>None\<close>, not a pair, and the results
  are in the attributes \<open>itype\<close> and \<open>suffix\<close> of the reader.
\<close>

theorem feed_returns_none:
  "fst (feed r_bondtypes ''CA CB 1 0.15 1000.0'') = Inr PNone
   \<and> itype (snd (feed r_bondtypes ''CA CB 1 0.15 1000.0'')) = Some ''BONDS''
   \<and> suffix (snd (feed r_bondtypes ''CA CB 1 0.15 1000.0'')) = Some ''CACB''"
  by code_simp

text \<open>What a read that succeeds has read: the list index, the field, the function type,
  the atom names.\<close>

lemma py_index_Inr:
  "py_index xs n = Inr x \<Longrightarrow>
   - int (length xs) \<le> n \<and> n < int (length xs) \<and> x = at_index xs n"
  by (auto simp: py_index_def add.commute split: if_splits)

lemma py_index_field:
  "py_index s (int k) = Inr w \<Longrightarrow> k < length s \<and> w = s ! k"
  by (auto simp: py_index_def split: if_splits)

lemma fields_1: "fields s [int a] = Inr ws \<Longrightarrow> a < length s \<and> ws = [s ! a]"
  by (auto split: sum.splits dest: py_index_field)

lemma fields_2:
  "fields s [int a, int b] = Inr ws \<Longrightarrow> a < length s \<and> b < length s \<and> ws = [s ! a, s ! b]"
  by (auto split: sum.splits dest: py_index_field)

lemma fields_3:
  "fields s [int a, int b, int c] = Inr ws \<Longrightarrow>
   a < length s \<and> b < length s \<and> c < length s \<and> ws = [s ! a, s ! b, s ! c]"
  by (auto split: sum.splits dest: py_index_field)

lemma fields_4:
  "fields s [int a, int b, int c, int d] = Inr ws \<Longrightarrow>
   a < length s \<and> b < length s \<and> c < length s \<and> d < length s
   \<and> ws = [s ! a, s ! b, s ! c, s ! d]"
  by (auto split: sum.splits dest: py_index_field)

lemma code_itype_Inr:
  assumes "code_itype name s (int k) = Inr it" and "fdict name = Some tbl"
  shows "k < length s
       \<and> (\<exists>n. py_int (s ! k) = Some n \<and> - int (length tbl) \<le> n \<and> n < int (length tbl)
              \<and> it = at_index tbl n)"
proof -
  from assms obtain w n where w: "py_index s (int k) = Inr w" and n: "py_int w = Some n"
    and i: "py_index tbl n = Inr it"
    by (auto simp: code_itype_def split: sum.splits option.splits)
  from py_index_field [OF w] py_index_Inr [OF i] n show ?thesis by auto
qed

lemma nb_itype_Inr:
  "nb_itype tbl nb = Inr it \<Longrightarrow>
   \<exists>n. nb = Some n \<and> - int (length tbl) \<le> n \<and> n < int (length tbl) \<and> it = at_index tbl n"
proof -
  assume a: "nb_itype tbl nb = Inr it"
  then obtain n where n: "nb = Some n" and i: "py_index tbl n = Inr it"
    by (cases nb) (simp_all add: nb_itype_def)
  from py_index_Inr [OF i] n show ?thesis by blast
qed

lemma lookup_atoms_Inr:
  "lookup_atoms self fs = Inr atoms \<Longrightarrow>
   (fs = [] \<and> atoms = [])
   \<or> (\<exists>tbl ns. res_table self = Some tbl \<and> map py_int fs = map Some ns
         \<and> (\<forall>n\<in>set ns. - int (length tbl) \<le> n - 1 \<and> n - 1 < int (length tbl))
         \<and> atoms = map (\<lambda>n. at_index tbl (n - 1)) ns)"
proof (induction fs arbitrary: atoms)
  case Nil
  then show ?case by simp
next
  case (Cons f fs)
  from Cons.prems obtain tbl n a rest where t: "res_table self = Some tbl"
    and n: "py_int f = Some n" and a: "py_index tbl (n - 1) = Inr a"
    and r: "lookup_atoms self fs = Inr rest" and e: "atoms = a # rest"
    by (auto split: option.splits sum.splits)
  note pa = py_index_Inr [OF a]
  from Cons.IH [OF r] show ?case
  proof (elim disjE conjE exE)
    assume "fs = []" "rest = []"
    with t n pa e have "res_table self = Some tbl \<and> map py_int (f # fs) = map Some [n]
         \<and> (\<forall>m\<in>set [n]. - int (length tbl) \<le> m - 1 \<and> m - 1 < int (length tbl))
         \<and> atoms = map (\<lambda>m. at_index tbl (m - 1)) [n]" by simp
    then show ?thesis by blast
  next
    fix tbl' ns
    assume t': "res_table self = Some tbl'" and m: "map py_int fs = map Some ns"
      and rg: "\<forall>n\<in>set ns. - int (length tbl') \<le> n - 1 \<and> n - 1 < int (length tbl')"
      and at: "rest = map (\<lambda>n. at_index tbl' (n - 1)) ns"
    from t t' have eq: "tbl' = tbl" by simp
    with t n pa e m rg at
    have "res_table self = Some tbl \<and> map py_int (f # fs) = map Some (n # ns)
         \<and> (\<forall>m\<in>set (n # ns). - int (length tbl) \<le> m - 1 \<and> m - 1 < int (length tbl))
         \<and> atoms = map (\<lambda>m. at_index tbl (m - 1)) (n # ns)" by simp
    then show ?thesis by blast
  qed
qed

text \<open>
  A call that returns on a data line of a known section came through the end of the
  method: the branch of the section fell through and the suffix was stored.
\<close>

lemma feed_success:
  assumes "data_line line" and "fst (feed self line) = Inr v"
    and "feed_section (self\<lparr>itype := None, ln := ln self + 1\<rparr>) (split_ws line) line = (f, r0)"
  shows "f = Return v
       \<or> (\<exists>atom. f = Fall atom \<and> v = PNone
            \<and> snd (feed self line) = r0\<lparr>suffix := Some (concat (canonical atom))\<rparr>)"
  using assms by (cases f) (simp_all add: feed_on_data_line)

lemma topol_Fall:
  "feed_topol name k self s = (f, r0) \<Longrightarrow>
   (\<exists>e. f = Raise e)
   \<or> (\<exists>atoms it. f = Fall atoms \<and> lookup_atoms self (take k s) = Inr atoms
         \<and> code_itype name s (int k) = Inr it \<and> r0 = self\<lparr>itype := it\<rparr>)"
  by (auto simp: feed_topol_def split: sum.splits)

lemma types_Fall:
  "feed_types name ks k self s = (f, r0) \<Longrightarrow>
   (\<exists>e. f = Raise e)
   \<or> (\<exists>atoms it. f = Fall atoms \<and> fields s ks = Inr atoms
         \<and> code_itype name s k = Inr it \<and> r0 = self\<lparr>itype := it\<rparr>)"
  by (auto simp: feed_types_def split: sum.splits)

lemma multiplicity_Fall:
  "add_multiplicity self s atom = (f, r0) \<Longrightarrow>
   (\<exists>e. f = Raise e)
   \<or> (f = Fall atom
       \<and> itype r0 = (if itype self = Some ''PDIHS'' \<and> 7 \<le> length s
                     then Some (''PDIHS'' @ s ! 7) else itype self)
       \<and> (itype self = Some ''PDIHS'' \<and> 7 \<le> length s \<longrightarrow> 7 < length s))"
  using py_index_field [of s 7]
  by (auto simp: add_multiplicity_def split: sum.splits)

lemma dihedrals_Fall:
  assumes "feed_dihedrals self s = (f, r0)"
  shows "(\<exists>e. f = Raise e)
   \<or> (\<exists>atoms it. f = Fall atoms \<and> lookup_atoms self (take 4 s) = Inr atoms
         \<and> code_itype ''dihedrals'' s (int 4) = Inr it
         \<and> itype r0 = (if it = Some ''PDIHS'' \<and> 7 \<le> length s
                       then Some (''PDIHS'' @ s ! 7) else it)
         \<and> (it = Some ''PDIHS'' \<and> 7 \<le> length s \<longrightarrow> 7 < length s))"
proof -
  obtain g r1 where g: "feed_topol ''dihedrals'' 4 self s = (g, r1)"
    by (cases "feed_topol ''dihedrals'' 4 self s")
  from topol_Fall [OF g] show ?thesis
  proof (elim disjE exE conjE)
    fix e assume "g = Raise e"
    with g assms have "f = Raise e" by (simp add: feed_dihedrals_def)
    then show ?thesis by blast
  next
    fix atoms it
    assume a: "g = Fall atoms" "lookup_atoms self (take 4 s) = Inr atoms"
      "code_itype ''dihedrals'' s (int 4) = Inr it" "r1 = self\<lparr>itype := it\<rparr>"
    with g assms have m: "add_multiplicity r1 s atoms = (f, r0)"
      by (simp add: feed_dihedrals_def)
    from a(4) have i: "itype r1 = it" by simp
    from multiplicity_Fall [OF m] show ?thesis
    proof (elim disjE exE conjE)
      fix e assume "f = Raise e"
      then show ?thesis by blast
    next
      assume "f = Fall atoms"
        "itype r0 = (if itype r1 = Some ''PDIHS'' \<and> 7 \<le> length s
                     then Some (''PDIHS'' @ s ! 7) else itype r1)"
        "itype r1 = Some ''PDIHS'' \<and> 7 \<le> length s \<longrightarrow> 7 < length s"
      with a(2,3) i show ?thesis by blast
    qed
  qed
qed

lemma dihedraltypes_Fall:
  assumes "feed_dihedraltypes self s = (f, r0)"
  shows "(\<exists>e. f = Raise e)
   \<or> (\<exists>atoms it. f = Fall atoms \<and> fields s [0, 1, 2, 3] = Inr atoms
         \<and> code_itype ''dihedraltypes'' s 4 = Inr it
         \<and> itype r0 = (if it = Some ''PDIHS'' \<and> 7 \<le> length s
                       then Some (''PDIHS'' @ s ! 7) else it)
         \<and> (it = Some ''PDIHS'' \<and> 7 \<le> length s \<longrightarrow> 7 < length s))"
proof -
  obtain g r1 where g: "feed_types ''dihedraltypes'' [0, 1, 2, 3] 4 self s = (g, r1)"
    by (cases "feed_types ''dihedraltypes'' [0, 1, 2, 3] 4 self s")
  from types_Fall [OF g] show ?thesis
  proof (elim disjE exE conjE)
    fix e assume "g = Raise e"
    with g assms have "f = Raise e" by (simp add: feed_dihedraltypes_def)
    then show ?thesis by blast
  next
    fix atoms it
    assume a: "g = Fall atoms" "fields s [0, 1, 2, 3] = Inr atoms"
      "code_itype ''dihedraltypes'' s 4 = Inr it" "r1 = self\<lparr>itype := it\<rparr>"
    with g assms have m: "add_multiplicity r1 s atoms = (f, r0)"
      by (simp add: feed_dihedraltypes_def)
    from a(4) have i: "itype r1 = it" by simp
    from multiplicity_Fall [OF m] show ?thesis
    proof (elim disjE exE conjE)
      fix e assume "f = Raise e"
      then show ?thesis by blast
    next
      assume "f = Fall atoms"
        "itype r0 = (if itype r1 = Some ''PDIHS'' \<and> 7 \<le> length s
                     then Some (''PDIHS'' @ s ! 7) else itype r1)"
        "itype r1 = Some ''PDIHS'' \<and> 7 \<le> length s \<longrightarrow> 7 < length s"
      with a(2,3) i show ?thesis by blast
    qed
  qed
qed

text \<open>The branch that \<open>feed\<close> takes in each section.\<close>

lemma in_defaults:
  "\<not> is_section_header line \<Longrightarrow> sec self = Some ''defaults'' \<Longrightarrow>
   feed_section self s line = feed_defaults self s"
  by (simp add: feed_section_def)

lemma in_moleculetype:
  "\<not> is_section_header line \<Longrightarrow> sec self = Some ''moleculetype'' \<Longrightarrow>
   feed_section self s line = feed_moleculetype self s"
  by (simp add: feed_section_def)

lemma in_atomtypes:
  "\<not> is_section_header line \<Longrightarrow> sec self = Some ''atomtypes'' \<Longrightarrow>
   feed_section self s line = feed_atomtypes self line"
  by (simp add: feed_section_def)

lemma in_nonbond_params:
  "\<not> is_section_header line \<Longrightarrow> sec self = Some ''nonbond_params'' \<Longrightarrow>
   feed_section self s line = feed_nonbond_params self s"
  by (simp add: feed_section_def)

lemma in_atoms:
  "\<not> is_section_header line \<Longrightarrow> sec self = Some ''atoms'' \<Longrightarrow>
   feed_section self s line = feed_atoms self s"
  by (simp add: feed_section_def)

lemma in_qtpie:
  "\<not> is_section_header line \<Longrightarrow> sec self = Some ''qtpie'' \<Longrightarrow>
   feed_section self s line = feed_qtpie self s"
  by (simp add: feed_section_def)

lemma in_bonds:
  "\<not> is_section_header line \<Longrightarrow> sec self = Some ''bonds'' \<Longrightarrow>
   feed_section self s line = feed_topol ''bonds'' 2 self s"
  by (simp add: feed_section_def)

lemma in_bondtypes:
  "\<not> is_section_header line \<Longrightarrow> sec self = Some ''bondtypes'' \<Longrightarrow>
   feed_section self s line = feed_types ''bondtypes'' [0, 1] 2 self s"
  by (simp add: feed_section_def)

lemma in_angles:
  "\<not> is_section_header line \<Longrightarrow> sec self = Some ''angles'' \<Longrightarrow>
   feed_section self s line = feed_topol ''angles'' 3 self s"
  by (simp add: feed_section_def)

lemma in_angletypes:
  "\<not> is_section_header line \<Longrightarrow> sec self = Some ''angletypes'' \<Longrightarrow>
   feed_section self s line = feed_types ''angletypes'' [0, 1, 2] 3 self s"
  by (simp add: feed_section_def)

lemma in_dihedrals:
  "\<not> is_section_header line \<Longrightarrow> sec self = Some ''dihedrals'' \<Longrightarrow>
   feed_section self s line = feed_dihedrals self s"
  by (simp add: feed_section_def)

lemma in_dihedraltypes:
  "\<not> is_section_header line \<Longrightarrow> sec self = Some ''dihedraltypes'' \<Longrightarrow>
   feed_section self s line = feed_dihedraltypes self s"
  by (simp add: feed_section_def)

lemma in_virtual_sites2:
  "\<not> is_section_header line \<Longrightarrow> sec self = Some ''virtual_sites2'' \<Longrightarrow>
   feed_section self s line = feed_types ''virtual_sites2'' [0] 3 self s"
  by (simp add: feed_section_def)

lemma in_virtual_sites3:
  "\<not> is_section_header line \<Longrightarrow> sec self = Some ''virtual_sites3'' \<Longrightarrow>
   feed_section self s line = feed_types ''virtual_sites3'' [0] 4 self s"
  by (simp add: feed_section_def)

lemma in_virtual_sites4:
  "\<not> is_section_header line \<Longrightarrow> sec self = Some ''virtual_sites4'' \<Longrightarrow>
   feed_section self s line = feed_types ''virtual_sites4'' [0] 5 self s"
  by (simp add: feed_section_def)

lemma feed_Fall:
  assumes "data_line line" and "fst (feed self line) = Inr v"
    and "feed_section (self\<lparr>itype := None, ln := ln self + 1\<rparr>) (split_ws line) line = (f, r0)"
    and "(\<exists>e. f = Raise e) \<or> (\<exists>atom. f = Fall atom \<and> P atom r0)"
  shows "v = PNone
       \<and> (\<exists>atom. P atom r0
            \<and> snd (feed self line) = r0\<lparr>suffix := Some (concat (canonical atom))\<rparr>)"
proof -
  from feed_success [OF assms(1,2,3)] show ?thesis
  proof (elim disjE exE conjE)
    assume "f = Return v"
    with assms(4) show ?thesis by simp
  next
    fix atom
    assume a: "f = Fall atom" "v = PNone"
      "snd (feed self line) = r0\<lparr>suffix := Some (concat (canonical atom))\<rparr>"
    with assms(4) have "P atom r0" by simp
    with a show ?thesis by blast
  qed
qed

lemma not_header: "data_line line \<Longrightarrow> \<not> is_section_header line"
  by (simp add: data_line_def)

text \<open>
  What each section leaves in the attributes \<open>itype\<close> and \<open>suffix\<close> when the call
  returns: the atoms that the branch has read and the interaction type that it has
  looked up.
\<close>

lemma section_result:
  assumes "data_line line" and "fst (feed self line) = Inr v"
    and "feed_section (self\<lparr>itype := None, ln := ln self + 1\<rparr>) (split_ws line) line = (f, r0)"
    and "(\<exists>e. f = Raise e) \<or> (\<exists>atom. f = Fall atom \<and> P atom r0)"
  shows "v = PNone
       \<and> (\<exists>atom. P atom r0 \<and> itype (snd (feed self line)) = itype r0
            \<and> suffix (snd (feed self line)) = Some (concat (canonical atom)))"
proof -
  from feed_Fall [OF assms(1,2,3), where P = P, OF assms(4)]
  obtain atom where a: "v = PNone" "P atom r0"
    "snd (feed self line) = r0\<lparr>suffix := Some (concat (canonical atom))\<rparr>" by blast
  from a(3) have "itype (snd (feed self line)) = itype r0"
    "suffix (snd (feed self line)) = Some (concat (canonical atom))" by simp_all
  with a(1,2) show ?thesis by blast
qed

lemma types_line:
  assumes "data_line line" and "sec self = Some name" and "fst (feed self line) = Inr v"
    and "feed_section (self\<lparr>itype := None, ln := ln self + 1\<rparr>) (split_ws line) line
         = feed_types name ks k (self\<lparr>itype := None, ln := ln self + 1\<rparr>) (split_ws line)"
  shows "v = PNone
       \<and> (\<exists>atoms it. fields (split_ws line) ks = Inr atoms
            \<and> code_itype name (split_ws line) k = Inr it
            \<and> itype (snd (feed self line)) = it
            \<and> suffix (snd (feed self line)) = Some (concat (canonical atoms)))"
proof -
  let ?E = "self\<lparr>itype := None, ln := ln self + 1\<rparr>"
  obtain f r0 where fr: "feed_section ?E (split_ws line) line = (f, r0)"
    by (cases "feed_section ?E (split_ws line) line")
  with assms(4) have ft: "feed_types name ks k ?E (split_ws line) = (f, r0)" by simp
  have alt: "(\<exists>e. f = Raise e) \<or> (\<exists>atom. f = Fall atom \<and> (\<exists>it.
      fields (split_ws line) ks = Inr atom \<and> code_itype name (split_ws line) k = Inr it
      \<and> itype r0 = it))"
    using types_Fall [OF ft] by auto
  from section_result [OF assms(1,3) fr, where P = "\<lambda>atom r. \<exists>it.
      fields (split_ws line) ks = Inr atom \<and> code_itype name (split_ws line) k = Inr it
      \<and> itype r = it", OF alt]
  show ?thesis by blast
qed

lemma topol_line:
  assumes "data_line line" and "sec self = Some name" and "fst (feed self line) = Inr v"
    and "feed_section (self\<lparr>itype := None, ln := ln self + 1\<rparr>) (split_ws line) line
         = feed_topol name k (self\<lparr>itype := None, ln := ln self + 1\<rparr>) (split_ws line)"
  shows "v = PNone
       \<and> (\<exists>atoms it. lookup_atoms self (take k (split_ws line)) = Inr atoms
            \<and> code_itype name (split_ws line) (int k) = Inr it
            \<and> itype (snd (feed self line)) = it
            \<and> suffix (snd (feed self line)) = Some (concat (canonical atoms)))"
proof -
  let ?E = "self\<lparr>itype := None, ln := ln self + 1\<rparr>"
  obtain f r0 where fr: "feed_section ?E (split_ws line) line = (f, r0)"
    by (cases "feed_section ?E (split_ws line) line")
  with assms(4) have ft: "feed_topol name k ?E (split_ws line) = (f, r0)" by simp
  have l: "lookup_atoms ?E (take k (split_ws line)) = lookup_atoms self (take k (split_ws line))"
    by (rule lookup_atoms_cong) simp_all
  have alt: "(\<exists>e. f = Raise e) \<or> (\<exists>atom. f = Fall atom \<and> (\<exists>it.
      lookup_atoms self (take k (split_ws line)) = Inr atom
      \<and> code_itype name (split_ws line) (int k) = Inr it \<and> itype r0 = it))"
    using topol_Fall [OF ft] unfolding l by auto
  from section_result [OF assms(1,3) fr, where P = "\<lambda>atom r. \<exists>it.
      lookup_atoms self (take k (split_ws line)) = Inr atom
      \<and> code_itype name (split_ws line) (int k) = Inr it \<and> itype r = it", OF alt]
  show ?thesis by blast
qed

lemma dihedrals_line:
  assumes "data_line line" and "sec self = Some ''dihedrals''"
    and "fst (feed self line) = Inr v"
  shows "v = PNone
       \<and> (\<exists>atoms it. lookup_atoms self (take 4 (split_ws line)) = Inr atoms
            \<and> code_itype ''dihedrals'' (split_ws line) (int 4) = Inr it
            \<and> itype (snd (feed self line))
                = (if it = Some ''PDIHS'' \<and> 7 \<le> length (split_ws line)
                   then Some (''PDIHS'' @ split_ws line ! 7) else it)
            \<and> (it = Some ''PDIHS'' \<and> 7 \<le> length (split_ws line) \<longrightarrow> 7 < length (split_ws line))
            \<and> suffix (snd (feed self line)) = Some (concat (canonical atoms)))"
proof -
  let ?E = "self\<lparr>itype := None, ln := ln self + 1\<rparr>"
  let ?P = "\<lambda>atom r. \<exists>it. lookup_atoms self (take 4 (split_ws line)) = Inr atom
      \<and> code_itype ''dihedrals'' (split_ws line) (int 4) = Inr it
      \<and> itype r = (if it = Some ''PDIHS'' \<and> 7 \<le> length (split_ws line)
                   then Some (''PDIHS'' @ split_ws line ! 7) else it)
      \<and> (it = Some ''PDIHS'' \<and> 7 \<le> length (split_ws line) \<longrightarrow> 7 < length (split_ws line))"
  have s: "sec ?E = Some ''dihedrals''" using assms(2) by simp
  obtain f r0 where fr: "feed_section ?E (split_ws line) line = (f, r0)"
    by (cases "feed_section ?E (split_ws line) line")
  with in_dihedrals [OF not_header [OF assms(1)] s]
  have ft: "feed_dihedrals ?E (split_ws line) = (f, r0)" by simp
  have l: "lookup_atoms ?E (take 4 (split_ws line)) = lookup_atoms self (take 4 (split_ws line))"
    by (rule lookup_atoms_cong) simp_all
  have alt: "(\<exists>e. f = Raise e) \<or> (\<exists>atom. f = Fall atom \<and> ?P atom r0)"
    using dihedrals_Fall [OF ft] unfolding l by blast
  from section_result [OF assms(1,3) fr, where P = ?P, OF alt]
  obtain atom it where a: "v = PNone" "lookup_atoms self (take 4 (split_ws line)) = Inr atom"
    "code_itype ''dihedrals'' (split_ws line) (int 4) = Inr it"
    "itype r0 = (if it = Some ''PDIHS'' \<and> 7 \<le> length (split_ws line)
                   then Some (''PDIHS'' @ split_ws line ! 7) else it)"
    "it = Some ''PDIHS'' \<and> 7 \<le> length (split_ws line) \<longrightarrow> 7 < length (split_ws line)"
    "itype (snd (feed self line)) = itype r0"
    "suffix (snd (feed self line)) = Some (concat (canonical atom))" by blast
  from a(4,6) have "itype (snd (feed self line))
       = (if it = Some ''PDIHS'' \<and> 7 \<le> length (split_ws line)
                   then Some (''PDIHS'' @ split_ws line ! 7) else it)" by simp
  with a(1,2,3,5,7) show ?thesis by blast
qed

lemma dihedraltypes_line:
  assumes "data_line line" and "sec self = Some ''dihedraltypes''"
    and "fst (feed self line) = Inr v"
  shows "v = PNone
       \<and> (\<exists>atoms it. fields (split_ws line) [0, 1, 2, 3] = Inr atoms
            \<and> code_itype ''dihedraltypes'' (split_ws line) 4 = Inr it
            \<and> itype (snd (feed self line))
                = (if it = Some ''PDIHS'' \<and> 7 \<le> length (split_ws line)
                   then Some (''PDIHS'' @ split_ws line ! 7) else it)
            \<and> (it = Some ''PDIHS'' \<and> 7 \<le> length (split_ws line) \<longrightarrow> 7 < length (split_ws line))
            \<and> suffix (snd (feed self line)) = Some (concat (canonical atoms)))"
proof -
  let ?E = "self\<lparr>itype := None, ln := ln self + 1\<rparr>"
  let ?P = "\<lambda>atom r. \<exists>it. fields (split_ws line) [0, 1, 2, 3] = Inr atom
      \<and> code_itype ''dihedraltypes'' (split_ws line) 4 = Inr it
      \<and> itype r = (if it = Some ''PDIHS'' \<and> 7 \<le> length (split_ws line)
                   then Some (''PDIHS'' @ split_ws line ! 7) else it)
      \<and> (it = Some ''PDIHS'' \<and> 7 \<le> length (split_ws line) \<longrightarrow> 7 < length (split_ws line))"
  have s: "sec ?E = Some ''dihedraltypes''" using assms(2) by simp
  obtain f r0 where fr: "feed_section ?E (split_ws line) line = (f, r0)"
    by (cases "feed_section ?E (split_ws line) line")
  with in_dihedraltypes [OF not_header [OF assms(1)] s]
  have ft: "feed_dihedraltypes ?E (split_ws line) = (f, r0)" by simp
  have alt: "(\<exists>e. f = Raise e) \<or> (\<exists>atom. f = Fall atom \<and> ?P atom r0)"
    using dihedraltypes_Fall [OF ft] by blast
  from section_result [OF assms(1,3) fr, where P = ?P, OF alt]
  obtain atom it where a: "v = PNone" "fields (split_ws line) [0, 1, 2, 3] = Inr atom"
    "code_itype ''dihedraltypes'' (split_ws line) 4 = Inr it"
    "itype r0 = (if it = Some ''PDIHS'' \<and> 7 \<le> length (split_ws line)
                   then Some (''PDIHS'' @ split_ws line ! 7) else it)"
    "it = Some ''PDIHS'' \<and> 7 \<le> length (split_ws line) \<longrightarrow> 7 < length (split_ws line)"
    "itype (snd (feed self line)) = itype r0"
    "suffix (snd (feed self line)) = Some (concat (canonical atom))" by blast
  from a(4,6) have "itype (snd (feed self line))
       = (if it = Some ''PDIHS'' \<and> 7 \<le> length (split_ws line)
                   then Some (''PDIHS'' @ split_ws line ! 7) else it)" by simp
  with a(1,2,3,5,7) show ?thesis by blast
qed

lemma state_line:
  assumes "data_line line" and "sec self = Some name"
    and "name = ''defaults'' \<or> name = ''moleculetype''"
    and "fst (feed self line) = Inr v"
  shows "v = PNone \<and> itype (snd (feed self line)) = None
       \<and> suffix (snd (feed self line)) = Some []"
proof -
  let ?E = "self\<lparr>itype := None, ln := ln self + 1\<rparr>"
  let ?P = "\<lambda>atom r. atom = ([] :: string list) \<and> itype r = None"
  have s: "sec ?E = Some name" using assms(2) by simp
  obtain f r0 where fr: "feed_section ?E (split_ws line) line = (f, r0)"
    by (cases "feed_section ?E (split_ws line) line")
  have alt: "(\<exists>e. f = Raise e) \<or> (\<exists>atom. f = Fall atom \<and> ?P atom r0)"
    using assms(3)
  proof
    assume n: "name = ''defaults''"
    from fr in_defaults [OF not_header [OF assms(1)] s [unfolded n]]
    have "feed_defaults ?E (split_ws line) = (f, r0)" by simp
    then show ?thesis
      by (auto simp: feed_defaults_def split: sum.splits option.splits)
  next
    assume n: "name = ''moleculetype''"
    from fr in_moleculetype [OF not_header [OF assms(1)] s [unfolded n]]
    have "feed_moleculetype ?E (split_ws line) = (f, r0)" by simp
    then show ?thesis
      by (auto simp: feed_moleculetype_def split: sum.splits)
  qed
  from section_result [OF assms(1,4) fr, where P = ?P, OF alt]
  show ?thesis by (auto simp: canonical_def)
qed

lemma atoms_line:
  assumes "data_line line" and "sec self = Some ''atoms''"
    and "fst (feed self line) = Inr v"
  shows "v = PNone \<and> 4 < length (split_ws line)
       \<and> itype (snd (feed self line)) = Some ''COUL''
       \<and> suffix (snd (feed self line)) = Some (split_ws line ! 4)"
proof -
  let ?E = "self\<lparr>itype := None, ln := ln self + 1\<rparr>"
  let ?P = "\<lambda>atom r. 4 < length (split_ws line) \<and> atom = [split_ws line ! 4]
      \<and> itype r = Some ''COUL''"
  have s: "sec ?E = Some ''atoms''" using assms(2) by simp
  obtain f r0 where fr: "feed_section ?E (split_ws line) line = (f, r0)"
    by (cases "feed_section ?E (split_ws line) line")
  with in_atoms [OF not_header [OF assms(1)] s]
  have ft: "feed_atoms ?E (split_ws line) = (f, r0)" by simp
  have alt: "(\<exists>e. f = Raise e) \<or> (\<exists>atom. f = Fall atom \<and> ?P atom r0)"
    using ft
    by (auto simp: feed_atoms_def Let_def py_index_def split: sum.splits if_splits)
  from section_result [OF assms(1,3) fr, where P = ?P, OF alt]
  show ?thesis by (auto simp: canonical_def)
qed

lemma qtpie_line:
  assumes "data_line line" and "sec self = Some ''qtpie''"
    and "fst (feed self line) = Inr v"
  shows "v = PNone \<and> 0 < length (split_ws line)
       \<and> itype (snd (feed self line)) = Some ''QTPIE''
       \<and> suffix (snd (feed self line)) = Some (split_ws line ! 0)"
proof -
  let ?E = "self\<lparr>itype := None, ln := ln self + 1\<rparr>"
  let ?P = "\<lambda>atom r. 0 < length (split_ws line) \<and> atom = [split_ws line ! 0]
      \<and> itype r = Some ''QTPIE''"
  have s: "sec ?E = Some ''qtpie''" using assms(2) by simp
  obtain f r0 where fr: "feed_section ?E (split_ws line) line = (f, r0)"
    by (cases "feed_section ?E (split_ws line) line")
  with in_qtpie [OF not_header [OF assms(1)] s]
  have ft: "feed_qtpie ?E (split_ws line) = (f, r0)" by simp
  have alt: "(\<exists>e. f = Raise e) \<or> (\<exists>atom. f = Fall atom \<and> ?P atom r0)"
    using ft
    by (auto simp: feed_qtpie_def py_index_def split: sum.splits if_splits)
  from section_result [OF assms(1,3) fr, where P = ?P, OF alt]
  show ?thesis by (auto simp: canonical_def)
qed

lemma nonbond_params_line:
  assumes "data_line line" and "sec self = Some ''nonbond_params''"
    and "fst (feed self line) = Inr v"
  shows "v = PNone
       \<and> (\<exists>atoms it. fields (split_ws line) [0, 1] = Inr atoms
            \<and> nb_itype pftypes (nbtype self) = Inr it
            \<and> itype (snd (feed self line)) = it
            \<and> suffix (snd (feed self line)) = Some (concat (canonical atoms)))"
proof -
  let ?E = "self\<lparr>itype := None, ln := ln self + 1\<rparr>"
  let ?P = "\<lambda>atom r. \<exists>it. fields (split_ws line) [0, 1] = Inr atom
            \<and> nb_itype pftypes (nbtype self) = Inr it \<and> itype r = it"
  have s: "sec ?E = Some ''nonbond_params''" using assms(2) by simp
  obtain f r0 where fr: "feed_section ?E (split_ws line) line = (f, r0)"
    by (cases "feed_section ?E (split_ws line) line")
  with in_nonbond_params [OF not_header [OF assms(1)] s]
  have ft: "feed_nonbond_params ?E (split_ws line) = (f, r0)" by simp
  have alt: "(\<exists>e. f = Raise e) \<or> (\<exists>atom. f = Fall atom \<and> ?P atom r0)"
    using ft by (auto simp: feed_nonbond_params_def split: sum.splits)
  from section_result [OF assms(1,3) fr, where P = ?P, OF alt]
  show ?thesis by blast
qed

lemma parse_atomtype_line_Some:
  "parse_atomtype_line line = Inr (Some a) \<Longrightarrow>
   6 \<le> length (split_ws (takeWhile (\<lambda>c. c \<noteq> CHR '';'') line))
   \<and> atomtype a = split_ws (takeWhile (\<lambda>c. c \<noteq> CHR '';'') line) ! 0"
  by (auto simp: parse_atomtype_line_def Let_def split: if_splits)

lemma atomtypes_line:
  assumes "data_line line" and "sec self = Some ''atomtypes''"
    and "fst (feed self line) = Inr v"
  shows "v = PNone
       \<and> (\<exists>a it. parse_atomtype_line line = Inr (Some a)
            \<and> nb_itype nftypes (nbtype self) = Inr it
            \<and> itype (snd (feed self line)) = it
            \<and> suffix (snd (feed self line))
                = Some (concat (canonical (map (\<lambda>c. [c]) (atomtype a)))))"
proof -
  let ?E = "self\<lparr>itype := None, ln := ln self + 1\<rparr>"
  let ?P = "\<lambda>atom r. \<exists>a it. parse_atomtype_line line = Inr (Some a)
            \<and> nb_itype nftypes (nbtype self) = Inr it \<and> itype r = it
            \<and> atom = map (\<lambda>c. [c]) (atomtype a)"
  have s: "sec ?E = Some ''atomtypes''" using assms(2) by simp
  obtain f r0 where fr: "feed_section ?E (split_ws line) line = (f, r0)"
    by (cases "feed_section ?E (split_ws line) line")
  with in_atomtypes [OF not_header [OF assms(1)] s]
  have ft: "feed_atomtypes ?E line = (f, r0)" by simp
  have fd: "fdict ''atomtypes'' = Some nftypes" by (simp add: fdict_def)
  have alt: "(\<exists>e. f = Raise e) \<or> (\<exists>atom. f = Fall atom \<and> ?P atom r0)"
    using ft unfolding feed_atomtypes_def fd
    by (auto simp: Let_def split: sum.splits option.splits if_splits)
  from section_result [OF assms(1,3) fr, where P = ?P, OF alt]
  show ?thesis by blast
qed

lemma canonical_chars:
  "\<not> (1 < length nm \<and> last nm < hd nm) \<Longrightarrow> concat (canonical (map (\<lambda>c. [c]) nm)) = nm"
proof (cases nm rule: rev_cases)
  case Nil
  then show ?thesis by (simp add: canonical_def)
next
  case (snoc ys y)
  assume h: "\<not> (1 < length nm \<and> last nm < hd nm)"
  have c: "concat (map (\<lambda>c. [c]) nm) = nm" by (induction nm) simp_all
  show ?thesis
  proof (cases ys)
    case Nil
    with snoc show ?thesis by (simp add: canonical_def)
  next
    case (Cons z zs)
    with snoc h have "\<not> y < z" by simp
    with snoc Cons have "canonical (map (\<lambda>c. [c]) nm) = map (\<lambda>c. [c]) nm"
      by (simp add: canonical_def)
    with c show ?thesis by simp
  qed
qed

lemma code_types:
  assumes "data_line line" and "sec self = Some name" and "fst (feed self line) = Inr v"
    and "feed_section (self\<lparr>itype := None, ln := ln self + 1\<rparr>) (split_ws line) line
         = feed_types name ks (int k) (self\<lparr>itype := None, ln := ln self + 1\<rparr>) (split_ws line)"
    and "fdict name = Some tbl"
  shows "k < length (split_ws line)
       \<and> (\<exists>tbl n. fdict name = Some tbl \<and> py_int (split_ws line ! k) = Some n
              \<and> - int (length tbl) \<le> n \<and> n < int (length tbl)
              \<and> itype (snd (feed self line)) = at_index tbl n)"
proof -
  from types_line [OF assms(1,2,3,4)] obtain it
    where c: "code_itype name (split_ws line) (int k) = Inr it"
      and i: "itype (snd (feed self line)) = it" by blast
  from code_itype_Inr [OF c assms(5)] i assms(5) show ?thesis by blast
qed

lemma code_topol:
  assumes "data_line line" and "sec self = Some name" and "fst (feed self line) = Inr v"
    and "feed_section (self\<lparr>itype := None, ln := ln self + 1\<rparr>) (split_ws line) line
         = feed_topol name k (self\<lparr>itype := None, ln := ln self + 1\<rparr>) (split_ws line)"
    and "fdict name = Some tbl"
  shows "k < length (split_ws line)
       \<and> (\<exists>tbl n. fdict name = Some tbl \<and> py_int (split_ws line ! k) = Some n
              \<and> - int (length tbl) \<le> n \<and> n < int (length tbl)
              \<and> itype (snd (feed self line)) = at_index tbl n)"
proof -
  from topol_line [OF assms(1,2,3,4)] obtain it
    where c: "code_itype name (split_ws line) (int k) = Inr it"
      and i: "itype (snd (feed self line)) = it" by blast
  from code_itype_Inr [OF c assms(5)] i assms(5) show ?thesis by blast
qed

lemma looked_up_suffix:
  assumes "lookup_atoms self (take k s) = Inr atoms" and "code_itype name s (int k) = Inr it"
    and "fdict name = Some t" and "0 < k" and "suffix r = Some (concat (canonical atoms))"
  shows "\<exists>tbl ns. res_table self = Some tbl
             \<and> map py_int (take k s) = map Some ns
             \<and> (\<forall>n\<in>set ns. - int (length tbl) \<le> n - 1 \<and> n - 1 < int (length tbl))
             \<and> suffix r = Some (concat (canonical (map (\<lambda>n. at_index tbl (n - 1)) ns)))"
proof -
  from code_itype_Inr [OF assms(2,3)] have "k < length s" by simp
  with assms(4) have ne: "take k s \<noteq> []" by auto
  from lookup_atoms_Inr [OF assms(1)] ne obtain tbl ns
    where a: "res_table self = Some tbl" "map py_int (take k s) = map Some ns"
      "\<forall>n\<in>set ns. - int (length tbl) \<le> n - 1 \<and> n - 1 < int (length tbl)"
      "atoms = map (\<lambda>n. at_index tbl (n - 1)) ns" by blast
  from assms(5) a(4)
  have "suffix r = Some (concat (canonical (map (\<lambda>n. at_index tbl (n - 1)) ns)))" by simp
  with a(1,2,3) show ?thesis by blast
qed

lemma dihedral_itype:
  assumes "code_itype name s (int 4) = Inr it" and "fdict name = Some t"
    and "itype r = (if it = Some ''PDIHS'' \<and> 7 \<le> length s
                    then Some (''PDIHS'' @ s ! 7) else it)"
    and "it = Some ''PDIHS'' \<and> 7 \<le> length s \<longrightarrow> 7 < length s"
  shows "4 < length s
       \<and> (\<exists>tbl n. fdict name = Some tbl \<and> py_int (s ! 4) = Some n
              \<and> - int (length tbl) \<le> n \<and> n < int (length tbl)
              \<and> (at_index tbl n = Some ''PDIHS'' \<and> 7 \<le> length s \<longrightarrow> 7 < length s)
              \<and> itype r = (if at_index tbl n = Some ''PDIHS'' \<and> 7 \<le> length s
                           then Some (''PDIHS'' @ s ! 7) else at_index tbl n))"
proof -
  from code_itype_Inr [OF assms(1,2)] obtain n where n: "4 < length s"
    "py_int (s ! 4) = Some n" "- int (length t) \<le> n" "n < int (length t)" "it = at_index t n"
    by blast
  from assms(3,4) n(5)
  have "(at_index t n = Some ''PDIHS'' \<and> 7 \<le> length s \<longrightarrow> 7 < length s)
      \<and> itype r = (if at_index t n = Some ''PDIHS'' \<and> 7 \<le> length s
                   then Some (''PDIHS'' @ s ! 7) else at_index t n)" by simp
  with n(1,2,3,4) assms(2) show ?thesis by blast
qed

lemma fdict_bonds: "fdict ''bonds'' = Some bftypes"
  by (simp add: fdict_def)

lemma fdict_angles: "fdict ''angles'' = Some aftypes"
  by (simp add: fdict_def)

lemma fdict_dihedrals: "fdict ''dihedrals'' = Some dftypes"
  by (simp add: fdict_def)

lemma fdict_dihedraltypes: "fdict ''dihedraltypes'' = Some dftypes"
  by (simp add: fdict_def)

text \<open>
  C1, amended.  For every data line (not blank, not a comment, not a section header) fed
  while the current section is one of the recognised data sections, a call of \<open>feed\<close>
  that does not raise returns \<open>None\<close>, and it leaves the resolved interaction type in the
  attribute \<open>itype\<close> and the canonical atom suffix in the attribute \<open>suffix\<close> of the
  reader.  With \<open>s\<close> the whitespace-delimited fields of the line:
  \<^item> \<open>defaults\<close>, \<open>moleculetype\<close>: the type is \<open>None\<close> and the suffix is empty;
  \<^item> \<open>atoms\<close>: the type is \<open>COUL\<close> and the suffix is field 4; \<open>qtpie\<close>: the type is \<open>QTPIE\<close>
    and the suffix is field 0;
  \<^item> \<open>atomtypes\<close>, \<open>nonbond_params\<close>: the type is the entry of the section's table of
    function types at the index \<open>nbtype\<close> that the \<open>defaults\<close> line has set; the suffix of
    \<open>nonbond_params\<close> is the canonical order of fields 0 and 1, joined; the suffix of
    \<open>atomtypes\<close> is the atom type, field 0 of the text before the first semicolon, when
    that name has one character or its first character does not sort after its last;
  \<^item> \<open>bonds\<close>, \<open>bondtypes\<close> (code in field 2), \<open>angles\<close>, \<open>angletypes\<close> (field 3),
    \<open>virtual_sites2\<close>, \<open>virtual_sites3\<close>, \<open>virtual_sites4\<close> (fields 3, 4, 5): the type is
    the entry of the section's table of function types at the integer code in that
    field;
  \<^item> \<open>dihedrals\<close>, \<open>dihedraltypes\<close> (code in field 4): the type is that entry, with field 7
    appended when the entry is \<open>PDIHS\<close> and the line has at least seven fields (it then
    has at least eight);
  \<^item> \<open>bonds\<close>, \<open>angles\<close>, \<open>dihedrals\<close>: the suffix is the canonical order, joined, of the
    names that the first 2, 3, 4 fields, read as 1-based indices, select in the table of
    the current residue;
  \<^item> \<open>bondtypes\<close>, \<open>angletypes\<close>, \<open>dihedraltypes\<close>: the suffix is the canonical order,
    joined, of the first 2, 3, 4 fields; the virtual sites: the suffix is field 0.

  An index \<open>n\<close> into a table of length \<open>l\<close> lies in \<open>-l \<le> n < l\<close> and a negative one counts
  from the end, as \<open>at_index\<close> writes out.
\<close>

theorem feed_data_line_stores_result:
  assumes "data_line line" and "sec self = Some name" and "name \<in> set data_sections"
    and "fst (feed self line) = Inr v"
  shows "let s = split_ws line; r = snd (feed self line);
             sl = split_ws (takeWhile (\<lambda>c. c \<noteq> CHR '';'') line)
         in v = PNone
        \<and> (name = ''defaults'' \<or> name = ''moleculetype'' \<longrightarrow>
             itype r = None \<and> suffix r = Some [])
        \<and> (name = ''atoms'' \<longrightarrow>
             4 < length s \<and> itype r = Some ''COUL''
             \<and> suffix r = Some (s ! 4))
        \<and> (name = ''qtpie'' \<longrightarrow>
             0 < length s \<and> itype r = Some ''QTPIE''
             \<and> suffix r = Some (s ! 0))
        \<and> (name = ''atomtypes'' \<or> name = ''nonbond_params'' \<longrightarrow>
             (\<exists>tbl n. fdict name = Some tbl \<and> nbtype self = Some n
                \<and> - int (length tbl) \<le> n \<and> n < int (length tbl)
                \<and> itype r = at_index tbl n))
        \<and> (name = ''atomtypes'' \<longrightarrow>
             6 \<le> length sl
             \<and> (\<not> (1 < length (sl ! 0)
                    \<and> last (sl ! 0)
                        < hd (sl ! 0)) \<longrightarrow>
                  suffix r
                    = Some (sl ! 0)))
        \<and> (name = ''nonbond_params'' \<longrightarrow>
             1 < length s
             \<and> suffix r = Some (concat (canonical [s ! 0, s ! 1])))
        \<and> (\<forall>k. (name, k) \<in> set [(''bonds'', 2), (''bondtypes'', 2), (''angles'', 3), (''angletypes'', 3),
                   (''virtual_sites2'', 3), (''virtual_sites3'', 4), (''virtual_sites4'', 5)] \<longrightarrow>
             k < length s
             \<and> (\<exists>tbl n. fdict name = Some tbl \<and> py_int (s ! k) = Some n
                    \<and> - int (length tbl) \<le> n \<and> n < int (length tbl)
                    \<and> itype r = at_index tbl n))
        \<and> (name = ''dihedrals'' \<or> name = ''dihedraltypes'' \<longrightarrow>
             4 < length s
             \<and> (\<exists>tbl n. fdict name = Some tbl \<and> py_int (s ! 4) = Some n
                    \<and> - int (length tbl) \<le> n \<and> n < int (length tbl)
                    \<and> (at_index tbl n = Some ''PDIHS'' \<and> 7 \<le> length s \<longrightarrow>
                         7 < length s)
                    \<and> itype r
                        = (if at_index tbl n = Some ''PDIHS'' \<and> 7 \<le> length s
                           then Some (''PDIHS'' @ s ! 7) else at_index tbl n)))
        \<and> (\<forall>k. (name, k) \<in> set [(''bonds'', 2), (''angles'', 3), (''dihedrals'', 4)] \<longrightarrow>
             (\<exists>tbl ns. res_table self = Some tbl
                \<and> map py_int (take k s) = map Some ns
                \<and> (\<forall>n\<in>set ns. - int (length tbl) \<le> n - 1 \<and> n - 1 < int (length tbl))
                \<and> suffix r
                    = Some (concat (canonical (map (\<lambda>n. at_index tbl (n - 1)) ns)))))
        \<and> (name = ''bondtypes'' \<longrightarrow>
             suffix r = Some (concat (canonical [s ! 0, s ! 1])))
        \<and> (name = ''angletypes'' \<longrightarrow>
             suffix r
               = Some (concat (canonical [s ! 0, s ! 1, s ! 2])))
        \<and> (name = ''dihedraltypes'' \<longrightarrow>
             suffix r
               = Some (concat (canonical [s ! 0, s ! 1, s ! 2,
                                          s ! 3])))
        \<and> (name = ''virtual_sites2'' \<or> name = ''virtual_sites3'' \<or> name = ''virtual_sites4'' \<longrightarrow>
             suffix r = Some (s ! 0))"
proof -
  let ?E = "self\<lparr>itype := None, ln := ln self + 1\<rparr>"
  let ?S = "split_ws line"
  note d = assms(1) and s = assms(2) and v = assms(4)
  note nh = not_header [OF d]
  have sE: "sec ?E = Some name" using s by simp
  have c_none: "v = PNone"
  proof -
    from assms(3) have "name = ''defaults'' \<or> name = ''moleculetype'' \<or> name = ''atomtypes''
        \<or> name = ''nonbond_params'' \<or> name = ''atoms'' \<or> name = ''qtpie'' \<or> name = ''bonds''
        \<or> name = ''bondtypes'' \<or> name = ''angles'' \<or> name = ''angletypes''
        \<or> name = ''dihedrals'' \<or> name = ''dihedraltypes'' \<or> name = ''virtual_sites2''
        \<or> name = ''virtual_sites3'' \<or> name = ''virtual_sites4''"
      by (simp add: data_sections_def)
    then show ?thesis
    proof (elim disjE)
      assume n: "name = ''defaults''"
      from state_line [OF d s _ v] n show ?thesis by simp
    next
      assume n: "name = ''moleculetype''"
      from state_line [OF d s _ v] n show ?thesis by simp
    next
      assume n: "name = ''atomtypes''"
      from atomtypes_line [OF d s [unfolded n] v] show ?thesis by simp
    next
      assume n: "name = ''nonbond_params''"
      from nonbond_params_line [OF d s [unfolded n] v] show ?thesis by simp
    next
      assume n: "name = ''atoms''"
      from atoms_line [OF d s [unfolded n] v] show ?thesis by simp
    next
      assume n: "name = ''qtpie''"
      from qtpie_line [OF d s [unfolded n] v] show ?thesis by simp
    next
      assume n: "name = ''bonds''"
      from topol_line [OF d s v, of 2] in_bonds [OF nh sE [unfolded n], of ?S] n
      show ?thesis by simp
    next
      assume n: "name = ''bondtypes''"
      from types_line [OF d s v, of "[0, 1]" 2] in_bondtypes [OF nh sE [unfolded n], of ?S] n
      show ?thesis by simp
    next
      assume n: "name = ''angles''"
      from topol_line [OF d s v, of 3] in_angles [OF nh sE [unfolded n], of ?S] n
      show ?thesis by simp
    next
      assume n: "name = ''angletypes''"
      from types_line [OF d s v, of "[0, 1, 2]" 3]
        in_angletypes [OF nh sE [unfolded n], of ?S] n
      show ?thesis by simp
    next
      assume n: "name = ''dihedrals''"
      from dihedrals_line [OF d s [unfolded n] v] show ?thesis by simp
    next
      assume n: "name = ''dihedraltypes''"
      from dihedraltypes_line [OF d s [unfolded n] v] show ?thesis by simp
    next
      assume n: "name = ''virtual_sites2''"
      from types_line [OF d s v, of "[0]" 3]
        in_virtual_sites2 [OF nh sE [unfolded n], of ?S] n
      show ?thesis by simp
    next
      assume n: "name = ''virtual_sites3''"
      from types_line [OF d s v, of "[0]" 4]
        in_virtual_sites3 [OF nh sE [unfolded n], of ?S] n
      show ?thesis by simp
    next
      assume n: "name = ''virtual_sites4''"
      from types_line [OF d s v, of "[0]" 5]
        in_virtual_sites4 [OF nh sE [unfolded n], of ?S] n
      show ?thesis by simp
    qed
  qed
  have c_state: "(name = ''defaults'' \<or> name = ''moleculetype'' \<longrightarrow>
          itype (snd (feed self line)) = None \<and> suffix (snd (feed self line)) = Some [])"
    using state_line [OF d s _ v] by blast
  have c_atoms: "(name = ''atoms'' \<longrightarrow>
          4 < length (split_ws line) \<and> itype (snd (feed self line)) = Some ''COUL''
          \<and> suffix (snd (feed self line)) = Some (split_ws line ! 4))"
  proof
    assume n: "name = ''atoms''"
    from atoms_line [OF d s [unfolded n] v]
    show "4 < length (split_ws line) \<and> itype (snd (feed self line)) = Some ''COUL''
          \<and> suffix (snd (feed self line)) = Some (split_ws line ! 4)" by simp
  qed
  have c_qtpie: "(name = ''qtpie'' \<longrightarrow>
          0 < length (split_ws line) \<and> itype (snd (feed self line)) = Some ''QTPIE''
          \<and> suffix (snd (feed self line)) = Some (split_ws line ! 0))"
  proof
    assume n: "name = ''qtpie''"
    from qtpie_line [OF d s [unfolded n] v]
    show "0 < length (split_ws line) \<and> itype (snd (feed self line)) = Some ''QTPIE''
          \<and> suffix (snd (feed self line)) = Some (split_ws line ! 0)" by simp
  qed
  have c_nb: "(name = ''atomtypes'' \<or> name = ''nonbond_params'' \<longrightarrow>
          (\<exists>tbl n. fdict name = Some tbl \<and> nbtype self = Some n
             \<and> - int (length tbl) \<le> n \<and> n < int (length tbl)
             \<and> itype (snd (feed self line)) = at_index tbl n))"
  proof
    assume "name = ''atomtypes'' \<or> name = ''nonbond_params''"
    then show "\<exists>tbl n. fdict name = Some tbl \<and> nbtype self = Some n
             \<and> - int (length tbl) \<le> n \<and> n < int (length tbl)
             \<and> itype (snd (feed self line)) = at_index tbl n"
    proof
      assume n: "name = ''atomtypes''"
      from atomtypes_line [OF d s [unfolded n] v] obtain it
        where a: "nb_itype nftypes (nbtype self) = Inr it" "itype (snd (feed self line)) = it"
        by blast
      have "fdict name = Some nftypes" by (simp add: n fdict_def)
      with nb_itype_Inr [OF a(1)] a(2) show ?thesis by blast
    next
      assume n: "name = ''nonbond_params''"
      from nonbond_params_line [OF d s [unfolded n] v] obtain it
        where a: "nb_itype pftypes (nbtype self) = Inr it" "itype (snd (feed self line)) = it"
        by blast
      have "fdict name = Some pftypes" by (simp add: n fdict_def)
      with nb_itype_Inr [OF a(1)] a(2) show ?thesis by blast
    qed
  qed
  have c_atsuf: "(name = ''atomtypes'' \<longrightarrow>
          6 \<le> length (split_ws (takeWhile (\<lambda>c. c \<noteq> CHR '';'') line))
          \<and> (\<not> (1 < length (split_ws (takeWhile (\<lambda>c. c \<noteq> CHR '';'') line) ! 0)
                 \<and> last (split_ws (takeWhile (\<lambda>c. c \<noteq> CHR '';'') line) ! 0)
                     < hd (split_ws (takeWhile (\<lambda>c. c \<noteq> CHR '';'') line) ! 0)) \<longrightarrow>
               suffix (snd (feed self line))
                 = Some (split_ws (takeWhile (\<lambda>c. c \<noteq> CHR '';'') line) ! 0)))"
  proof (intro impI conjI)
    assume n: "name = ''atomtypes''"
    from atomtypes_line [OF d s [unfolded n] v] obtain a
      where a: "parse_atomtype_line line = Inr (Some a)"
        "suffix (snd (feed self line)) = Some (concat (canonical (map (\<lambda>c. [c]) (atomtype a))))"
      by blast
    note p = parse_atomtype_line_Some [OF a(1)]
    from p show "6 \<le> length (split_ws (takeWhile (\<lambda>c. c \<noteq> CHR '';'') line))" by simp
    assume "\<not> (1 < length (split_ws (takeWhile (\<lambda>c. c \<noteq> CHR '';'') line) ! 0)
                 \<and> last (split_ws (takeWhile (\<lambda>c. c \<noteq> CHR '';'') line) ! 0)
                     < hd (split_ws (takeWhile (\<lambda>c. c \<noteq> CHR '';'') line) ! 0))"
    with p have "\<not> (1 < length (atomtype a) \<and> last (atomtype a) < hd (atomtype a))" by simp
    from canonical_chars [OF this] a(2) p
    show "suffix (snd (feed self line))
                 = Some (split_ws (takeWhile (\<lambda>c. c \<noteq> CHR '';'') line) ! 0)" by simp
  qed
  have c_nbsuf: "(name = ''nonbond_params'' \<longrightarrow>
          1 < length (split_ws line)
          \<and> suffix (snd (feed self line)) = Some (concat (canonical [split_ws line ! 0, split_ws line ! 1])))"
  proof
    assume n: "name = ''nonbond_params''"
    from nonbond_params_line [OF d s [unfolded n] v] obtain atoms
      where a: "fields (split_ws line) [int 0, int 1] = Inr atoms"
        "suffix (snd (feed self line)) = Some (concat (canonical atoms))" by auto
    from fields_2 [OF a(1)] a(2)
    show "1 < length (split_ws line)
          \<and> suffix (snd (feed self line))
              = Some (concat (canonical [split_ws line ! 0, split_ws line ! 1]))" by simp
  qed
  have c_code: "(\<forall>k. (name, k) \<in> set [(''bonds'', 2), (''bondtypes'', 2), (''angles'', 3), (''angletypes'', 3),
                (''virtual_sites2'', 3), (''virtual_sites3'', 4), (''virtual_sites4'', 5)] \<longrightarrow>
          k < length (split_ws line)
          \<and> (\<exists>tbl n. fdict name = Some tbl \<and> py_int (split_ws line ! k) = Some n
                 \<and> - int (length tbl) \<le> n \<and> n < int (length tbl)
                 \<and> itype (snd (feed self line)) = at_index tbl n))"
  proof (intro allI impI)
    fix k :: nat
    assume "(name, k) \<in> set [(''bonds'', 2), (''bondtypes'', 2), (''angles'', 3),
                (''angletypes'', 3), (''virtual_sites2'', 3), (''virtual_sites3'', 4),
                (''virtual_sites4'', 5)]"
    then have "name = ''bonds'' \<and> k = 2 \<or> name = ''bondtypes'' \<and> k = 2
        \<or> name = ''angles'' \<and> k = 3 \<or> name = ''angletypes'' \<and> k = 3
        \<or> name = ''virtual_sites2'' \<and> k = 3 \<or> name = ''virtual_sites3'' \<and> k = 4
        \<or> name = ''virtual_sites4'' \<and> k = 5" by simp
    then show "k < length (split_ws line)
          \<and> (\<exists>tbl n. fdict name = Some tbl \<and> py_int (split_ws line ! k) = Some n
                 \<and> - int (length tbl) \<le> n \<and> n < int (length tbl)
                 \<and> itype (snd (feed self line)) = at_index tbl n)"
    proof (elim disjE conjE)
      assume n: "name = ''bonds''" and k: "k = 2"
      have "feed_section ?E ?S line = feed_topol name k ?E ?S"
        using in_bonds [OF nh sE [unfolded n], of ?S] by (simp add: n k)
      moreover have "fdict name = Some bftypes" by (simp add: n fdict_def)
      ultimately show ?thesis by (rule code_topol [OF d s v])
    next
      assume n: "name = ''bondtypes''" and k: "k = 2"
      have "feed_section ?E ?S line = feed_types name [0, 1] (int k) ?E ?S"
        using in_bondtypes [OF nh sE [unfolded n], of ?S] by (simp add: n k)
      moreover have "fdict name = Some bftypes" by (simp add: n fdict_def)
      ultimately show ?thesis by (rule code_types [OF d s v])
    next
      assume n: "name = ''angles''" and k: "k = 3"
      have "feed_section ?E ?S line = feed_topol name k ?E ?S"
        using in_angles [OF nh sE [unfolded n], of ?S] by (simp add: n k)
      moreover have "fdict name = Some aftypes" by (simp add: n fdict_def)
      ultimately show ?thesis by (rule code_topol [OF d s v])
    next
      assume n: "name = ''angletypes''" and k: "k = 3"
      have "feed_section ?E ?S line = feed_types name [0, 1, 2] (int k) ?E ?S"
        using in_angletypes [OF nh sE [unfolded n], of ?S] by (simp add: n k)
      moreover have "fdict name = Some aftypes" by (simp add: n fdict_def)
      ultimately show ?thesis by (rule code_types [OF d s v])
    next
      assume n: "name = ''virtual_sites2''" and k: "k = 3"
      have "feed_section ?E ?S line = feed_types name [0] (int k) ?E ?S"
        using in_virtual_sites2 [OF nh sE [unfolded n], of ?S] by (simp add: n k)
      moreover have "fdict name = Some [Some ''NONE'', Some ''VSITE2'']"
        by (simp add: n fdict_def)
      ultimately show ?thesis by (rule code_types [OF d s v])
    next
      assume n: "name = ''virtual_sites3''" and k: "k = 4"
      have "feed_section ?E ?S line = feed_types name [0] (int k) ?E ?S"
        using in_virtual_sites3 [OF nh sE [unfolded n], of ?S] by (simp add: n k)
      moreover have "fdict name = Some [Some ''NONE'', Some ''VSITE3'', Some ''VSITE3FD'',
          Some ''VSITE3FAD'', Some ''VSITE3OUT'']"
        by (simp add: n fdict_def)
      ultimately show ?thesis by (rule code_types [OF d s v])
    next
      assume n: "name = ''virtual_sites4''" and k: "k = 5"
      have "feed_section ?E ?S line = feed_types name [0] (int k) ?E ?S"
        using in_virtual_sites4 [OF nh sE [unfolded n], of ?S] by (simp add: n k)
      moreover have "fdict name = Some [Some ''NONE'', Some ''VSITE4FD'']"
        by (simp add: n fdict_def)
      ultimately show ?thesis by (rule code_types [OF d s v])
    qed
  qed
  have c_dih: "(name = ''dihedrals'' \<or> name = ''dihedraltypes'' \<longrightarrow>
          4 < length (split_ws line)
          \<and> (\<exists>tbl n. fdict name = Some tbl \<and> py_int (split_ws line ! 4) = Some n
                 \<and> - int (length tbl) \<le> n \<and> n < int (length tbl)
                 \<and> (at_index tbl n = Some ''PDIHS'' \<and> 7 \<le> length (split_ws line) \<longrightarrow>
                      7 < length (split_ws line))
                 \<and> itype (snd (feed self line))
                     = (if at_index tbl n = Some ''PDIHS'' \<and> 7 \<le> length (split_ws line)
                        then Some (''PDIHS'' @ split_ws line ! 7) else at_index tbl n)))"
  proof
    assume "name = ''dihedrals'' \<or> name = ''dihedraltypes''"
    then show "4 < length (split_ws line)
          \<and> (\<exists>tbl n. fdict name = Some tbl \<and> py_int (split_ws line ! 4) = Some n
                 \<and> - int (length tbl) \<le> n \<and> n < int (length tbl)
                 \<and> (at_index tbl n = Some ''PDIHS'' \<and> 7 \<le> length (split_ws line) \<longrightarrow>
                      7 < length (split_ws line))
                 \<and> itype (snd (feed self line))
                     = (if at_index tbl n = Some ''PDIHS'' \<and> 7 \<le> length (split_ws line)
                        then Some (''PDIHS'' @ split_ws line ! 7) else at_index tbl n))"
    proof
      assume n: "name = ''dihedrals''"
      from dihedrals_line [OF d s [unfolded n] v] obtain it
        where a: "code_itype ''dihedrals'' (split_ws line) (int 4) = Inr it"
          "itype (snd (feed self line))
                = (if it = Some ''PDIHS'' \<and> 7 \<le> length (split_ws line)
                   then Some (''PDIHS'' @ split_ws line ! 7) else it)"
          "it = Some ''PDIHS'' \<and> 7 \<le> length (split_ws line) \<longrightarrow> 7 < length (split_ws line)"
        by blast
      from dihedral_itype [OF a(1) fdict_dihedrals a(2,3)] show ?thesis unfolding n .
    next
      assume n: "name = ''dihedraltypes''"
      from dihedraltypes_line [OF d s [unfolded n] v] obtain it
        where a: "code_itype ''dihedraltypes'' (split_ws line) (int 4) = Inr it"
          "itype (snd (feed self line))
                = (if it = Some ''PDIHS'' \<and> 7 \<le> length (split_ws line)
                   then Some (''PDIHS'' @ split_ws line ! 7) else it)"
          "it = Some ''PDIHS'' \<and> 7 \<le> length (split_ws line) \<longrightarrow> 7 < length (split_ws line)"
        by auto
      from dihedral_itype [OF a(1) fdict_dihedraltypes a(2,3)] show ?thesis unfolding n .
    qed
  qed
  have c_topo: "(\<forall>k. (name, k) \<in> set [(''bonds'', 2), (''angles'', 3), (''dihedrals'', 4)] \<longrightarrow>
          (\<exists>tbl ns. res_table self = Some tbl
             \<and> map py_int (take k (split_ws line)) = map Some ns
             \<and> (\<forall>n\<in>set ns. - int (length tbl) \<le> n - 1 \<and> n - 1 < int (length tbl))
             \<and> suffix (snd (feed self line))
                 = Some (concat (canonical (map (\<lambda>n. at_index tbl (n - 1)) ns)))))"
  proof (intro allI impI)
    fix k :: nat
    assume "(name, k) \<in> set [(''bonds'', 2), (''angles'', 3), (''dihedrals'', 4)]"
    then have "name = ''bonds'' \<and> k = 2 \<or> name = ''angles'' \<and> k = 3
        \<or> name = ''dihedrals'' \<and> k = 4" by simp
    then show "\<exists>tbl ns. res_table self = Some tbl
             \<and> map py_int (take k (split_ws line)) = map Some ns
             \<and> (\<forall>n\<in>set ns. - int (length tbl) \<le> n - 1 \<and> n - 1 < int (length tbl))
             \<and> suffix (snd (feed self line))
                 = Some (concat (canonical (map (\<lambda>n. at_index tbl (n - 1)) ns)))"
    proof (elim disjE conjE)
      assume n: "name = ''bonds''" and k: "k = 2"
      have "feed_section ?E ?S line = feed_topol ''bonds'' 2 ?E ?S"
        using in_bonds [OF nh sE [unfolded n], of ?S] by simp
      from topol_line [OF d s [unfolded n] v this] obtain atoms it
        where a: "lookup_atoms self (take 2 (split_ws line)) = Inr atoms"
          "code_itype ''bonds'' (split_ws line) (int 2) = Inr it"
          "suffix (snd (feed self line)) = Some (concat (canonical atoms))" by blast
      from looked_up_suffix [OF a(1,2) fdict_bonds _ a(3)] show ?thesis unfolding k by simp
    next
      assume n: "name = ''angles''" and k: "k = 3"
      have "feed_section ?E ?S line = feed_topol ''angles'' 3 ?E ?S"
        using in_angles [OF nh sE [unfolded n], of ?S] by simp
      from topol_line [OF d s [unfolded n] v this] obtain atoms it
        where a: "lookup_atoms self (take 3 (split_ws line)) = Inr atoms"
          "code_itype ''angles'' (split_ws line) (int 3) = Inr it"
          "suffix (snd (feed self line)) = Some (concat (canonical atoms))" by blast
      from looked_up_suffix [OF a(1,2) fdict_angles _ a(3)] show ?thesis unfolding k by simp
    next
      assume n: "name = ''dihedrals''" and k: "k = 4"
      from dihedrals_line [OF d s [unfolded n] v] obtain atoms it
        where a: "lookup_atoms self (take 4 (split_ws line)) = Inr atoms"
          "code_itype ''dihedrals'' (split_ws line) (int 4) = Inr it"
          "suffix (snd (feed self line)) = Some (concat (canonical atoms))" by blast
      from looked_up_suffix [OF a(1,2) fdict_dihedrals _ a(3)] show ?thesis unfolding k by simp
    qed
  qed
  have c_bt: "(name = ''bondtypes'' \<longrightarrow>
          suffix (snd (feed self line)) = Some (concat (canonical [split_ws line ! 0, split_ws line ! 1])))"
  proof
    assume n: "name = ''bondtypes''"
    have "feed_section ?E ?S line = feed_types ''bondtypes'' [int 0, int 1] 2 ?E ?S"
      using in_bondtypes [OF nh sE [unfolded n], of ?S] by simp
    from types_line [OF d s [unfolded n] v this] obtain atoms
      where a: "fields (split_ws line) [int 0, int 1] = Inr atoms"
        "suffix (snd (feed self line)) = Some (concat (canonical atoms))" by blast
    from fields_2 [OF a(1)] a(2)
    show "suffix (snd (feed self line))
        = Some (concat (canonical [split_ws line ! 0, split_ws line ! 1]))" by simp
  qed
  have c_at: "(name = ''angletypes'' \<longrightarrow>
          suffix (snd (feed self line))
            = Some (concat (canonical [split_ws line ! 0, split_ws line ! 1, split_ws line ! 2])))"
  proof
    assume n: "name = ''angletypes''"
    have "feed_section ?E ?S line = feed_types ''angletypes'' [int 0, int 1, int 2] 3 ?E ?S"
      using in_angletypes [OF nh sE [unfolded n], of ?S] by simp
    from types_line [OF d s [unfolded n] v this] obtain atoms
      where a: "fields (split_ws line) [int 0, int 1, int 2] = Inr atoms"
        "suffix (snd (feed self line)) = Some (concat (canonical atoms))" by blast
    from fields_3 [OF a(1)] a(2)
    show "suffix (snd (feed self line))
        = Some (concat (canonical [split_ws line ! 0, split_ws line ! 1, split_ws line ! 2]))"
      by simp
  qed
  have c_dt: "(name = ''dihedraltypes'' \<longrightarrow>
          suffix (snd (feed self line))
            = Some (concat (canonical [split_ws line ! 0, split_ws line ! 1, split_ws line ! 2,
                                       split_ws line ! 3])))"
  proof
    assume n: "name = ''dihedraltypes''"
    from dihedraltypes_line [OF d s [unfolded n] v] obtain atoms
      where a: "fields (split_ws line) [int 0, int 1, int 2, int 3] = Inr atoms"
        "suffix (snd (feed self line)) = Some (concat (canonical atoms))" by auto
    from fields_4 [OF a(1)] a(2)
    show "suffix (snd (feed self line))
        = Some (concat (canonical [split_ws line ! 0, split_ws line ! 1, split_ws line ! 2,
                                   split_ws line ! 3]))"
      by simp
  qed
  have c_vs: "(name = ''virtual_sites2'' \<or> name = ''virtual_sites3'' \<or> name = ''virtual_sites4'' \<longrightarrow>
          suffix (snd (feed self line)) = Some (split_ws line ! 0))"
  proof
    assume "name = ''virtual_sites2'' \<or> name = ''virtual_sites3'' \<or> name = ''virtual_sites4''"
    then obtain k where "feed_section ?E ?S line = feed_types name [int 0] k ?E ?S"
    proof (elim disjE)
      assume n: "name = ''virtual_sites2''"
      have "feed_section ?E ?S line = feed_types name [int 0] 3 ?E ?S"
        using in_virtual_sites2 [OF nh sE [unfolded n], of ?S] by (simp add: n)
      then show ?thesis by (rule that)
    next
      assume n: "name = ''virtual_sites3''"
      have "feed_section ?E ?S line = feed_types name [int 0] 4 ?E ?S"
        using in_virtual_sites3 [OF nh sE [unfolded n], of ?S] by (simp add: n)
      then show ?thesis by (rule that)
    next
      assume n: "name = ''virtual_sites4''"
      have "feed_section ?E ?S line = feed_types name [int 0] 5 ?E ?S"
        using in_virtual_sites4 [OF nh sE [unfolded n], of ?S] by (simp add: n)
      then show ?thesis by (rule that)
    qed
    from types_line [OF d s v this] obtain atoms
      where a: "fields (split_ws line) [int 0] = Inr atoms"
        "suffix (snd (feed self line)) = Some (concat (canonical atoms))" by blast
    from fields_1 [OF a(1)] a(2)
    show "suffix (snd (feed self line)) = Some (split_ws line ! 0)"
      by (simp add: canonical_def)
  qed
  from c_none c_state c_atoms c_qtpie c_nb c_atsuf c_nbsuf c_code c_dih c_topo c_bt c_at c_dt
    c_vs
  show ?thesis unfolding Let_def by (intro conjI)
qed

text \<open>A \<open>bondtypes\<close> line whose two atom types are put in canonical order.\<close>

theorem feed_data_line_stores_result_witness:
  "fst (feed r_bondtypes ''OW HW 1 0.09572 502416.0'') = Inr PNone
   \<and> itype (snd (feed r_bondtypes ''OW HW 1 0.09572 502416.0'')) = Some ''BONDS''
   \<and> suffix (snd (feed r_bondtypes ''OW HW 1 0.09572 502416.0'')) = Some ''HWOW''"
proof -
  let ?l = "''OW HW 1 0.09572 502416.0''"
  have d: "data_line ?l" by code_simp
  have s: "sec r_bondtypes = Some ''bondtypes''" by (simp add: r_bondtypes_def init_reader_def)
  have m: "''bondtypes'' \<in> set data_sections" by (simp add: data_sections_def)
  have v: "fst (feed r_bondtypes ?l) = Inr PNone" by code_simp
  have f: "split_ws ?l ! 0 = ''OW''" "split_ws ?l ! 1 = ''HW''" "split_ws ?l ! 2 = ''1''"
    by code_simp+
  have i: "py_int ''1'' = Some 1" by code_simp
  have t: "fdict ''bondtypes'' = Some bftypes" by (simp add: fdict_def)
  have c: "concat (canonical [''OW'', ''HW'']) = ''HWOW''" by code_simp
  note r = feed_data_line_stores_result [OF d s m v, unfolded Let_def]
  from r have "suffix (snd (feed r_bondtypes ?l))
      = Some (concat (canonical [split_ws ?l ! 0, split_ws ?l ! 1]))" by simp
  then have su: "suffix (snd (feed r_bondtypes ?l)) = Some ''HWOW''" unfolding f c .
  from r have "2 < length (split_ws ?l)
      \<and> (\<exists>tbl n. fdict ''bondtypes'' = Some tbl \<and> py_int (split_ws ?l ! 2) = Some n
             \<and> - int (length tbl) \<le> n \<and> n < int (length tbl)
             \<and> itype (snd (feed r_bondtypes ?l)) = at_index tbl n)" by simp
  then obtain tbl n where a: "fdict ''bondtypes'' = Some tbl"
    "py_int (split_ws ?l ! 2) = Some n" "itype (snd (feed r_bondtypes ?l)) = at_index tbl n"
    by blast
  from a(1) t have "tbl = bftypes" by simp
  moreover from a(2) f(3) i have "n = 1" by simp
  ultimately have it: "itype (snd (feed r_bondtypes ?l)) = Some ''BONDS''"
    using a(3) by (simp add: bftypes_def)
  from v it su show ?thesis by simp
qed

end
